theory Spec2Isabelle
  imports Complex_Main "HOL-Library.Multiset" "HOL-Library.Word"
begin

section \<open>JavaScript numbers\<close>

text \<open>
  A JavaScript number is a finite value, one of the two infinities, or NaN. A finite
  double is carried as the rational it denotes, and finite arithmetic is exact: the
  rounding of a result to the nearest double is not modelled, and neither is the sign of
  zero. Where a claim turns on a boundary that the rounding moves, the model says so at
  the place: the tolerance guard of the instance comparator is the one such place. The
  concrete values asserted for the pixel transform are the same in doubles: they are
  integers and halves, and the quotient \<open>360 / 400\<close>, whose product with 255 is rounded
  to 229.5.
\<close>

datatype jsnum = Fin rat | PosInf | NegInf | NaN

fun jneg :: "jsnum \<Rightarrow> jsnum" where
  "jneg (Fin a) = Fin (- a)"
| "jneg PosInf = NegInf"
| "jneg NegInf = PosInf"
| "jneg NaN = NaN"

fun jadd :: "jsnum \<Rightarrow> jsnum \<Rightarrow> jsnum" where
  "jadd (Fin a) (Fin b) = Fin (a + b)"
| "jadd (Fin a) PosInf = PosInf"
| "jadd (Fin a) NegInf = NegInf"
| "jadd PosInf (Fin b) = PosInf"
| "jadd PosInf PosInf = PosInf"
| "jadd PosInf NegInf = NaN"
| "jadd NegInf (Fin b) = NegInf"
| "jadd NegInf PosInf = NaN"
| "jadd NegInf NegInf = NegInf"
| "jadd NaN y = NaN"
| "jadd x NaN = NaN"

definition jsub :: "jsnum \<Rightarrow> jsnum \<Rightarrow> jsnum" where
  "jsub x y = jadd x (jneg y)"

fun jmul :: "jsnum \<Rightarrow> jsnum \<Rightarrow> jsnum" where
  "jmul (Fin a) (Fin b) = Fin (a * b)"
| "jmul (Fin a) PosInf = (if a = 0 then NaN else if 0 < a then PosInf else NegInf)"
| "jmul (Fin a) NegInf = (if a = 0 then NaN else if 0 < a then NegInf else PosInf)"
| "jmul PosInf (Fin b) = (if b = 0 then NaN else if 0 < b then PosInf else NegInf)"
| "jmul NegInf (Fin b) = (if b = 0 then NaN else if 0 < b then NegInf else PosInf)"
| "jmul PosInf PosInf = PosInf"
| "jmul PosInf NegInf = NegInf"
| "jmul NegInf PosInf = NegInf"
| "jmul NegInf NegInf = PosInf"
| "jmul NaN y = NaN"
| "jmul x NaN = NaN"

text \<open>Division; a zero divisor is taken as \<open>+0\<close>.\<close>

fun jdiv :: "jsnum \<Rightarrow> jsnum \<Rightarrow> jsnum" where
  "jdiv (Fin a) (Fin b) =
     (if b = 0 then (if a = 0 then NaN else if 0 < a then PosInf else NegInf)
      else Fin (a / b))"
| "jdiv (Fin a) PosInf = Fin 0"
| "jdiv (Fin a) NegInf = Fin 0"
| "jdiv PosInf (Fin b) = (if 0 \<le> b then PosInf else NegInf)"
| "jdiv NegInf (Fin b) = (if 0 \<le> b then NegInf else PosInf)"
| "jdiv PosInf PosInf = NaN"
| "jdiv PosInf NegInf = NaN"
| "jdiv NegInf PosInf = NaN"
| "jdiv NegInf NegInf = NaN"
| "jdiv NaN y = NaN"
| "jdiv x NaN = NaN"

text \<open>The relational operators: every comparison with NaN is false.\<close>

fun jlt :: "jsnum \<Rightarrow> jsnum \<Rightarrow> bool" where
  "jlt (Fin a) (Fin b) = (a < b)"
| "jlt (Fin a) PosInf = True"
| "jlt NegInf (Fin b) = True"
| "jlt NegInf PosInf = True"
| "jlt x y = False"

fun jle :: "jsnum \<Rightarrow> jsnum \<Rightarrow> bool" where
  "jle (Fin a) (Fin b) = (a \<le> b)"
| "jle NaN y = False"
| "jle x NaN = False"
| "jle NegInf y = True"
| "jle x PosInf = True"
| "jle x y = False"

definition jgt :: "jsnum \<Rightarrow> jsnum \<Rightarrow> bool" where
  "jgt x y = jlt y x"

definition jge :: "jsnum \<Rightarrow> jsnum \<Rightarrow> bool" where
  "jge x y = jle y x"

fun isNaN :: "jsnum \<Rightarrow> bool" where
  "isNaN NaN = True"
| "isNaN x = False"

fun Math_abs :: "jsnum \<Rightarrow> jsnum" where
  "Math_abs (Fin a) = Fin \<bar>a\<bar>"
| "Math_abs PosInf = PosInf"
| "Math_abs NegInf = PosInf"
| "Math_abs NaN = NaN"

text \<open>\<open>Math.round\<close>: the nearest integer, a tie going to the one closer to \<open>+\<infinity>\<close>.\<close>

fun Math_round :: "jsnum \<Rightarrow> jsnum" where
  "Math_round (Fin a) = Fin (of_int \<lfloor>a + 1 / 2\<rfloor>)"
| "Math_round x = x"

text \<open>
  Storing a number into a \<open>Uint8ClampedArray\<close> (the canvas image data): NaN becomes 0,
  the value is clamped to \<open>[0, 255]\<close> and rounded, a tie going to the even integer.
\<close>

fun toUint8Clamp :: "jsnum \<Rightarrow> nat" where
  "toUint8Clamp NaN = 0"
| "toUint8Clamp NegInf = 0"
| "toUint8Clamp PosInf = 255"
| "toUint8Clamp (Fin q) =
     (if q \<le> 0 then 0 else if 255 \<le> q then 255
      else (let f = \<lfloor>q\<rfloor> in
            if q - of_int f < 1 / 2 then nat f
            else if 1 / 2 < q - of_int f then nat (f + 1)
            else if even f then nat f else nat (f + 1)))"


section \<open>Pixel transform (Viewport.tsx, renderImage)\<close>

text \<open>The window bounds, lines 137-138.\<close>

definition windowLow :: "jsnum \<Rightarrow> jsnum \<Rightarrow> jsnum" where
  "windowLow wc ww = jsub wc (jdiv ww (Fin 2))"

definition windowHigh :: "jsnum \<Rightarrow> jsnum \<Rightarrow> jsnum" where
  "windowHigh wc ww = jadd wc (jdiv ww (Fin 2))"

text \<open>The rescale, line 160.\<close>

definition modalityValue :: "jsnum \<Rightarrow> jsnum \<Rightarrow> jsnum \<Rightarrow> jsnum" where
  "modalityValue pixelValue rescaleSlope rescaleIntercept =
     jadd (jmul pixelValue rescaleSlope) rescaleIntercept"

text \<open>
  The window/level step, lines 163-170. The branch taken is kept apart from the value it
  yields, so that a statement can say whether the division by \<open>ww\<close> is evaluated: it is
  evaluated in the branch \<open>Scaled\<close> and nowhere else.
\<close>

datatype branch = ClampLow | ClampHigh | Scaled

definition windowBranch :: "jsnum \<Rightarrow> jsnum \<Rightarrow> jsnum \<Rightarrow> branch" where
  "windowBranch mv wLow wHigh =
     (if jle mv wLow then ClampLow
      else if jge mv wHigh then ClampHigh
      else Scaled)"

definition displayValue :: "jsnum \<Rightarrow> jsnum \<Rightarrow> jsnum \<Rightarrow> jsnum \<Rightarrow> jsnum" where
  "displayValue mv wLow wHigh ww =
     (case windowBranch mv wLow wHigh of
        ClampLow \<Rightarrow> Fin 0
      | ClampHigh \<Rightarrow> Fin 255
      | Scaled \<Rightarrow> Math_round (jmul (jdiv (jsub mv wLow) ww) (Fin 255)))"

text \<open>One sample, from the raw value to the byte written to the three colour channels.\<close>

definition renderPixel :: "jsnum \<Rightarrow> jsnum \<Rightarrow> jsnum \<Rightarrow> jsnum \<Rightarrow> jsnum \<Rightarrow> nat" where
  "renderPixel pixelValue rescaleSlope rescaleIntercept wc ww =
     toUint8Clamp
       (displayValue (modalityValue pixelValue rescaleSlope rescaleIntercept)
          (windowLow wc ww) (windowHigh wc ww) ww)"


section \<open>Strings\<close>

text \<open>
  The strings the decoder handles are built by the DICOM library one byte per character,
  so a character is a code unit below 256, as a \<^typ>\<open>char\<close> is. The white space of
  \<open>trim\<close> and \<open>parseFloat\<close> in that range is TAB, LF, VT, FF, CR, SPACE and NBSP.
\<close>

definition isWhiteSpace :: "char \<Rightarrow> bool" where
  "isWhiteSpace c = ((of_char c :: nat) \<in> set [9, 10, 11, 12, 13, 32, 160])"

definition trim :: "string \<Rightarrow> string" where
  "trim s = rev (dropWhile isWhiteSpace (rev (dropWhile isWhiteSpace s)))"

text \<open>\<open>s.split(d)\<close> for a one-character delimiter: the result is never empty, and the
  empty string gives one empty part.\<close>

fun split :: "char \<Rightarrow> string \<Rightarrow> string list" where
  "split d [] = [[]]"
| "split d (c # cs) =
     (if c = d then [] # split d cs
      else (case split d cs of [] \<Rightarrow> [[c]] | p # ps \<Rightarrow> (c # p) # ps))"

definition backslash :: char where
  "backslash = CHR 0x5C"

definition isDigit :: "char \<Rightarrow> bool" where
  "isDigit c = (48 \<le> (of_char c :: nat) \<and> (of_char c :: nat) \<le> 57)"

definition digitsValue :: "string \<Rightarrow> nat" where
  "digitsValue ds = foldl (\<lambda>acc c. 10 * acc + (of_char c - 48)) 0 ds"

text \<open>The exponent part of a decimal literal: \<open>e\<close> or \<open>E\<close>, an optional sign, digits.
  Without digits there is no exponent part, and the exponent is 0.\<close>

definition exponentPart :: "string \<Rightarrow> int" where
  "exponentPart s =
     (case s of
        [] \<Rightarrow> 0
      | c # r \<Rightarrow>
          if c = CHR ''e'' \<or> c = CHR ''E'' then
            (case r of
               [] \<Rightarrow> 0
             | c' # r' \<Rightarrow>
                 if c' = CHR ''-'' then
                   (if takeWhile isDigit r' = [] then 0
                    else - int (digitsValue (takeWhile isDigit r')))
                 else if c' = CHR ''+'' then int (digitsValue (takeWhile isDigit r'))
                 else int (digitsValue (takeWhile isDigit r)))
          else 0)"

text \<open>
  \<open>parseFloat\<close> of the language: leading white space is skipped, the longest prefix that is
  a decimal literal (sign, \<open>Infinity\<close> or digits with an optional fraction and exponent) is
  converted, and NaN is returned when there is no such prefix. The value is the exact
  decimal value (a literal beyond the range of a double is not turned into an infinity).
\<close>

definition parseFloat :: "string \<Rightarrow> jsnum" where
  "parseFloat input =
     (let s = dropWhile isWhiteSpace input;
          neg = (s \<noteq> [] \<and> hd s = CHR ''-'');
          s1 = (if s \<noteq> [] \<and> (hd s = CHR ''-'' \<or> hd s = CHR ''+'') then tl s else s)
      in if take 8 s1 = ''Infinity'' then (if neg then NegInf else PosInf)
         else
           (let ip = takeWhile isDigit s1;
                s2 = dropWhile isDigit s1;
                dot = (s2 \<noteq> [] \<and> hd s2 = CHR ''.'');
                fp = (if dot then takeWhile isDigit (tl s2) else []);
                s3 = (if dot then dropWhile isDigit (tl s2) else s2)
            in if ip = [] \<and> fp = [] then NaN
               else
                 (let ex = exponentPart s3;
                      m = (of_nat (digitsValue (ip @ fp)) :: rat) / 10 ^ length fp;
                      v = (if 0 \<le> ex then m * 10 ^ nat ex else m / 10 ^ nat (- ex))
                  in Fin (if neg then - v else v))))"

text \<open>Decimal rendering of a length, for the template string of the binary placeholder.\<close>

fun showNat :: "nat \<Rightarrow> string" where
  "showNat n =
     (if n < 10 then [char_of (48 + n)]
      else showNat (n div 10) @ [char_of (48 + n mod 10)])"

text \<open>\<open>toUpperCase\<close> on the letters \<open>a\<close> to \<open>z\<close>; tag keys are \<open>x\<close> and hexadecimal digits.\<close>

definition toUpperCase :: "string \<Rightarrow> string" where
  "toUpperCase s =
     map (\<lambda>c. if 97 \<le> (of_char c :: nat) \<and> (of_char c :: nat) \<le> 122
               then char_of ((of_char c :: nat) - 32) else c) s"

text \<open>Truthiness of a \<open>string | null\<close>: null and the empty string are falsy.\<close>

fun truthy :: "string option \<Rightarrow> bool" where
  "truthy None = False"
| "truthy (Some s) = (s \<noteq> [])"


section \<open>Maps with insertion order\<close>

text \<open>A \<open>Map\<close> with string keys: \<open>get\<close>, and \<open>set\<close>, which replaces the value of a key that
  is present where it stands and appends a new key at the end.\<close>

fun map_get :: "('k \<times> 'v) list \<Rightarrow> 'k \<Rightarrow> 'v option" where
  "map_get [] k = None"
| "map_get ((k', v) # m) k = (if k' = k then Some v else map_get m k)"

fun map_set :: "('k \<times> 'v) list \<Rightarrow> 'k \<Rightarrow> 'v \<Rightarrow> ('k \<times> 'v) list" where
  "map_set [] k v = [(k, v)]"
| "map_set ((k', v') # m) k v = (if k' = k then (k, v) # m else (k', v') # map_set m k v)"


section \<open>Data model (types/dicom.ts)\<close>

text \<open>
  \<open>null\<close> is \<open>None\<close>. Field names are the source's; where two interfaces share a field
  name, the later record carries a prefix (\<open>series_\<close>, \<open>file_\<close>, \<open>info_\<close>).
\<close>

datatype tagValue =
  VNull | VString string | VNumber jsnum | VStrings "string list" | VNumbers "jsnum list"

record DicomTag =
  tag :: string
  vr :: string
  name :: string
  "value" :: tagValue

text \<open>\<open>number | number[]\<close>, the type of a window value.\<close>

datatype numberOrArray = Single jsnum | Array "jsnum list"

record DicomInstance =
  filePath :: string
  sopInstanceUID :: string
  instanceNumber :: "jsnum option"
  imagePositionPatient :: "jsnum list option"
  sliceLocation :: "jsnum option"
  acquisitionNumber :: "jsnum option"
  rows :: "nat option"
  columns :: "nat option"
  bitsAllocated :: "nat option"
  bitsStored :: "nat option"
  pixelRepresentation :: "nat option"
  photometricInterpretation :: "string option"
  rescaleSlope :: "jsnum option"
  rescaleIntercept :: "jsnum option"
  windowCenter :: "numberOrArray option"
  windowWidth :: "numberOrArray option"
  numberOfFrames :: "jsnum option"
  transferSyntaxUID :: "string option"

record DicomSeries =
  seriesInstanceUID :: string
  seriesNumber :: "jsnum option"
  seriesDescription :: "string option"
  modality :: string
  series_studyInstanceUID :: string
  instances :: "DicomInstance list"
  sortedInstances :: "DicomInstance list"
  thumbnailImageId :: "string option"

record DicomStudy =
  studyInstanceUID :: string
  studyDate :: "string option"
  studyTime :: "string option"
  studyDescription :: "string option"
  patientName :: "string option"
  patientId :: "string option"
  patientBirthDate :: "string option"
  patientSex :: "string option"
  accessionNumber :: "string option"
  institutionName :: "string option"
  referringPhysicianName :: "string option"
  series :: "(string \<times> DicomSeries) list"

text \<open>\<open>Partial<DicomStudy>\<close> and \<open>Partial<DicomSeries>\<close> as the decoder fills them: a field
  that is \<open>null\<close> or missing is \<open>None\<close> (the reader applies \<open>?? null\<close> to each).\<close>

record StudyInfo =
  info_studyInstanceUID :: "string option"
  info_studyDate :: "string option"
  info_studyTime :: "string option"
  info_studyDescription :: "string option"
  info_patientName :: "string option"
  info_patientId :: "string option"
  info_patientBirthDate :: "string option"
  info_patientSex :: "string option"
  info_accessionNumber :: "string option"
  info_institutionName :: "string option"
  info_referringPhysicianName :: "string option"

record SeriesInfo =
  info_seriesInstanceUID :: "string option"
  info_seriesNumber :: "jsnum option"
  info_seriesDescription :: "string option"
  info_modality :: "string option"
  info_series_studyInstanceUID :: "string option"

record ParsedDicomFile =
  file_filePath :: string
  file_studyInstanceUID :: string
  file_seriesInstanceUID :: string
  file_sopInstanceUID :: string
  "instance" :: DicomInstance
  studyInfo :: StudyInfo
  seriesInfo :: SeriesInfo
  metadata :: "(string \<times> DicomTag) list"


section \<open>The DICOM library's data set\<close>

text \<open>
  The decoder reads a file through the library \<open>dicom-parser\<close>, which is not part of the
  repository. Its data set is taken by what the decoder can observe of it: the result of
  each accessor call, which returns a value, returns \<open>undefined\<close>, or throws; and the
  element table, in enumeration order. Nothing is assumed about how these relate to the
  bytes: the library's \<open>parseDicom\<close> is a parameter of the decoder.
\<close>

datatype 'a access = Throws | Undefined | Returns 'a

record element =
  el_vr :: "string option"
  el_length :: nat

record dataSet =
  ds_string :: "string \<Rightarrow> string access"
  ds_uint16 :: "string \<Rightarrow> nat access"
  elements :: "(string \<times> element) list"

datatype exn = Exn string

type_synonym byte = "8 word"


section \<open>Dataset decoder (utils/dicomParser.ts)\<close>

definition TAG_DICTIONARY :: "(string \<times> string) list" where
  "TAG_DICTIONARY =
    [(''x00020010'', ''TransferSyntaxUID''),
     (''x00080005'', ''SpecificCharacterSet''),
     (''x00080008'', ''ImageType''),
     (''x00080016'', ''SOPClassUID''),
     (''x00080018'', ''SOPInstanceUID''),
     (''x00080020'', ''StudyDate''),
     (''x00080021'', ''SeriesDate''),
     (''x00080030'', ''StudyTime''),
     (''x00080031'', ''SeriesTime''),
     (''x00080050'', ''AccessionNumber''),
     (''x00080060'', ''Modality''),
     (''x00080070'', ''Manufacturer''),
     (''x00080080'', ''InstitutionName''),
     (''x00080090'', ''ReferringPhysicianName''),
     (''x00081030'', ''StudyDescription''),
     (''x0008103e'', ''SeriesDescription''),
     (''x00100010'', ''PatientName''),
     (''x00100020'', ''PatientID''),
     (''x00100030'', ''PatientBirthDate''),
     (''x00100040'', ''PatientSex''),
     (''x00180050'', ''SliceThickness''),
     (''x00180088'', ''SpacingBetweenSlices''),
     (''x00181020'', ''SoftwareVersions''),
     (''x00185100'', ''PatientPosition''),
     (''x0020000d'', ''StudyInstanceUID''),
     (''x0020000e'', ''SeriesInstanceUID''),
     (''x00200010'', ''StudyID''),
     (''x00200011'', ''SeriesNumber''),
     (''x00200012'', ''AcquisitionNumber''),
     (''x00200013'', ''InstanceNumber''),
     (''x00200032'', ''ImagePositionPatient''),
     (''x00200037'', ''ImageOrientationPatient''),
     (''x00201041'', ''SliceLocation''),
     (''x00280002'', ''SamplesPerPixel''),
     (''x00280004'', ''PhotometricInterpretation''),
     (''x00280010'', ''Rows''),
     (''x00280011'', ''Columns''),
     (''x00280030'', ''PixelSpacing''),
     (''x00280100'', ''BitsAllocated''),
     (''x00280101'', ''BitsStored''),
     (''x00280102'', ''HighBit''),
     (''x00280103'', ''PixelRepresentation''),
     (''x00281050'', ''WindowCenter''),
     (''x00281051'', ''WindowWidth''),
     (''x00281052'', ''RescaleIntercept''),
     (''x00281053'', ''RescaleSlope''),
     (''x00281054'', ''RescaleType''),
     (''x00280008'', ''NumberOfFrames''),
     (''x7fe00010'', ''PixelData'')]"

text \<open>Each getter catches what the accessor throws and returns \<open>null\<close> in its place.\<close>

definition getString :: "dataSet \<Rightarrow> string \<Rightarrow> string option" where
  "getString dataSet t =
     (case ds_string dataSet t of
        Throws \<Rightarrow> None
      | Undefined \<Rightarrow> None
      | Returns v \<Rightarrow> Some (trim v))"

definition getNumber :: "dataSet \<Rightarrow> string \<Rightarrow> jsnum option" where
  "getNumber dataSet t =
     (case ds_string dataSet t of
        Throws \<Rightarrow> None
      | Undefined \<Rightarrow> None
      | Returns strValue \<Rightarrow>
          (let num = parseFloat strValue in if isNaN num then None else Some num))"

definition getInt :: "dataSet \<Rightarrow> string \<Rightarrow> nat option" where
  "getInt dataSet t =
     (case ds_uint16 dataSet t of
        Throws \<Rightarrow> None
      | Undefined \<Rightarrow> None
      | Returns v \<Rightarrow> Some v)"

definition getNumberArray :: "dataSet \<Rightarrow> string \<Rightarrow> jsnum list option" where
  "getNumberArray dataSet t =
     (case ds_string dataSet t of
        Throws \<Rightarrow> None
      | Undefined \<Rightarrow> None
      | Returns strValue \<Rightarrow>
          (let parts = map (\<lambda>s. parseFloat (trim s)) (split backslash strValue)
           in if list_ex isNaN parts then None else Some parts))"

text \<open>The window values, lines 165-177: parsed in place, not through \<open>getNumberArray\<close>.\<close>

definition windowValue :: "string option \<Rightarrow> numberOrArray option" where
  "windowValue str =
     (case str of
        None \<Rightarrow> None
      | Some s \<Rightarrow>
          if s = [] then None
          else (let parts = map (\<lambda>s. parseFloat (trim s)) (split backslash s)
                in Some (if length parts = 1 then Single (hd parts) else Array parts)))"

definition replaceCarets :: "string \<Rightarrow> string" where
  "replaceCarets s = map (\<lambda>c. if c = CHR ''^'' then CHR '' '' else c) s"

definition formatPatientName :: "string option \<Rightarrow> string option" where
  "formatPatientName n =
     (case n of
        None \<Rightarrow> None
      | Some s \<Rightarrow> if s = [] then None else Some (trim (replaceCarets s)))"

definition formatTagString :: "string \<Rightarrow> string" where
  "formatTagString t =
     (if t \<noteq> [] \<and> hd t = CHR ''x'' then
        (let hex = drop 1 t
         in toUpperCase (''('' @ take 4 hex @ '','' @ drop 4 hex @ '')''))
      else t)"

definition nullish :: "'a option \<Rightarrow> 'a \<Rightarrow> 'a" where
  "nullish v d = (case v of None \<Rightarrow> d | Some x \<Rightarrow> x)"

text \<open>The value shown for one element in the tag map, lines 235-250.\<close>

definition elementValue :: "dataSet \<Rightarrow> string \<Rightarrow> element \<Rightarrow> tagValue" where
  "elementValue dataSet t el =
     (if el_vr el = Some ''SQ'' then VString ''[Sequence]''
      else if 256 < el_length el then
        VString (''[Binary data: '' @ showNat (el_length el) @ '' bytes]'')
      else (case ds_string dataSet t of
              Throws \<Rightarrow> VNull
            | Undefined \<Rightarrow> VNull
            | Returns strValue \<Rightarrow>
                if backslash \<in> set strValue then VStrings (split backslash strValue)
                else VString strValue))"

definition extractMetadata :: "dataSet \<Rightarrow> (string \<times> DicomTag) list" where
  "extractMetadata dataSet =
     foldl (\<lambda>m (t, el).
              if t = ''x7fe00010'' then m
              else map_set m t
                     \<lparr> tag = formatTagString t,
                       vr = nullish (el_vr el) ''UN'',
                       name = nullish (map_get TAG_DICTIONARY t) (formatTagString t),
                       value = elementValue dataSet t el \<rparr>)
           [] (elements dataSet)"

text \<open>
  The body of the \<open>try\<close> block of \<open>parseDicomFile\<close>. \<open>Inl\<close> is an exception that reaches the
  \<open>catch\<close>: the library's \<open>parseDicom\<close> is the one call of the block that is not wrapped
  in a handler of its own. \<open>Inr None\<close> is the \<open>return null\<close> of the required-UID check.
\<close>

definition parseDicomFile_try ::
  "(byte list \<Rightarrow> exn + dataSet) \<Rightarrow> byte list \<Rightarrow> string \<Rightarrow> exn + ParsedDicomFile option" where
  "parseDicomFile_try parseDicom arrayBuffer path =
     (case parseDicom arrayBuffer of
        Inl e \<Rightarrow> Inl e
      | Inr dataSet \<Rightarrow>
          (let studyUID = getString dataSet ''x0020000d'';
               seriesUID = getString dataSet ''x0020000e'';
               sopUID = getString dataSet ''x00080018''
           in if \<not> truthy studyUID \<or> \<not> truthy seriesUID \<or> \<not> truthy sopUID then Inr None
              else
                (let wcStr = getString dataSet ''x00281050'';
                     wwStr = getString dataSet ''x00281051'';
                     inst =
                       \<lparr> filePath = path,
                         sopInstanceUID = nullish sopUID [],
                         instanceNumber = getNumber dataSet ''x00200013'',
                         imagePositionPatient = getNumberArray dataSet ''x00200032'',
                         sliceLocation = getNumber dataSet ''x00201041'',
                         acquisitionNumber = getNumber dataSet ''x00200012'',
                         rows = getInt dataSet ''x00280010'',
                         columns = getInt dataSet ''x00280011'',
                         bitsAllocated = getInt dataSet ''x00280100'',
                         bitsStored = getInt dataSet ''x00280101'',
                         pixelRepresentation = getInt dataSet ''x00280103'',
                         photometricInterpretation = getString dataSet ''x00280004'',
                         rescaleSlope = Some (nullish (getNumber dataSet ''x00281053'') (Fin 1)),
                         rescaleIntercept =
                           Some (nullish (getNumber dataSet ''x00281052'') (Fin 0)),
                         windowCenter = windowValue wcStr,
                         windowWidth = windowValue wwStr,
                         numberOfFrames = getNumber dataSet ''x00280008'',
                         transferSyntaxUID = getString dataSet ''x00020010'' \<rparr>;
                     stInfo =
                       \<lparr> info_studyInstanceUID = studyUID,
                         info_studyDate = getString dataSet ''x00080020'',
                         info_studyTime = getString dataSet ''x00080030'',
                         info_studyDescription = getString dataSet ''x00081030'',
                         info_patientName = formatPatientName (getString dataSet ''x00100010''),
                         info_patientId = getString dataSet ''x00100020'',
                         info_patientBirthDate = getString dataSet ''x00100030'',
                         info_patientSex = getString dataSet ''x00100040'',
                         info_accessionNumber = getString dataSet ''x00080050'',
                         info_institutionName = getString dataSet ''x00080080'',
                         info_referringPhysicianName = getString dataSet ''x00080090'' \<rparr>;
                     seInfo =
                       \<lparr> info_seriesInstanceUID = seriesUID,
                         info_seriesNumber = getNumber dataSet ''x00200011'',
                         info_seriesDescription = getString dataSet ''x0008103e'',
                         info_modality = Some (nullish (getString dataSet ''x00080060'') ''OT''),
                         info_series_studyInstanceUID = studyUID \<rparr>
                 in Inr (Some
                      \<lparr> file_filePath = path,
                        file_studyInstanceUID = nullish studyUID [],
                        file_seriesInstanceUID = nullish seriesUID [],
                        file_sopInstanceUID = nullish sopUID [],
                        instance = inst,
                        studyInfo = stInfo,
                        seriesInfo = seInfo,
                        metadata = extractMetadata dataSet \<rparr>))))"

text \<open>The \<open>catch\<close>: the error is logged and \<open>null\<close> is returned.\<close>

definition parseDicomFile ::
  "(byte list \<Rightarrow> exn + dataSet) \<Rightarrow> byte list \<Rightarrow> string \<Rightarrow> ParsedDicomFile option" where
  "parseDicomFile parseDicom arrayBuffer path =
     (case parseDicomFile_try parseDicom arrayBuffer path of
        Inl e \<Rightarrow> None
      | Inr r \<Rightarrow> r)"


section \<open>Instance ordering (utils/dicomParser.ts, sortInstances)\<close>

text \<open>Reading an array element: an index past the end yields \<open>undefined\<close>, which the
  subtraction that follows converts to NaN.\<close>

definition at_index :: "jsnum list \<Rightarrow> nat \<Rightarrow> jsnum" where
  "at_index xs i = (if i < length xs then xs ! i else NaN)"

text \<open>
  The literal \<open>0.001\<close> denotes the double nearest to one thousandth, which is
  \<open>4611686018427388 / 2 ^ 62\<close> and lies slightly above it.
\<close>

definition double_0_001 :: rat where
  "double_0_001 = 1152921504606847 / 2 ^ 60"

definition tolerance :: jsnum where
  "tolerance = Fin double_0_001"

text \<open>
  The guard \<open>Math.abs(diff) > 0.001\<close> of the first two levels. The source tests the
  difference as the subtraction delivers it, rounded to the nearest double, a tie going
  to the even significand; the model carries the exact difference. Around \<open>0.001\<close> the
  doubles are \<open>1 / 2 ^ 62\<close> apart and the significand of \<open>0.001\<close> is even, so an exact
  difference of up to \<open>0.001 + 1 / 2 ^ 63\<close> is delivered as \<open>0.001\<close> or less, and a
  larger one as more. The guard of the model applies that test to the exact difference,
  and so decides as the source does on every pair of doubles: on \<open>0.002\<close> and \<open>0.001\<close>,
  whose difference is the double \<open>0.001\<close>, it is false. The sign of a difference is
  not touched by the rounding: the difference of two doubles is delivered as zero only
  when it is zero.
\<close>

definition roundingMargin :: rat where
  "roundingMargin = 1 / 2 ^ 63"

definition exceedsTolerance :: "jsnum \<Rightarrow> bool" where
  "exceedsTolerance diff = jgt (Math_abs diff) (jadd tolerance (Fin roundingMargin))"

text \<open>
  Modelled from the spec: \<open>String.prototype.localeCompare\<close> belongs to the runtime; the
  specification describes the last level as comparing the file paths lexicographically.
  The model compares code units and returns \<open>-1\<close>, \<open>0\<close> or \<open>1\<close>.
\<close>

fun localeCompare :: "string \<Rightarrow> string \<Rightarrow> int" where
  "localeCompare [] [] = 0"
| "localeCompare [] (y # ys) = - 1"
| "localeCompare (x # xs) [] = 1"
| "localeCompare (x # xs) (y # ys) =
     (if (of_char x :: nat) < of_char y then - 1
      else if (of_char y :: nat) < of_char x then 1
      else localeCompare xs ys)"

text \<open>The first two levels return only a difference that passes the guard.\<close>

definition zLevel :: "DicomInstance \<Rightarrow> DicomInstance \<Rightarrow> jsnum option" where
  "zLevel a b =
     (case (imagePositionPatient a, imagePositionPatient b) of
        (Some pa, Some pb) \<Rightarrow>
          (let zDiff = jsub (at_index pa 2) (at_index pb 2)
           in if exceedsTolerance zDiff then Some zDiff else None)
      | _ \<Rightarrow> None)"

definition sliceLevel :: "DicomInstance \<Rightarrow> DicomInstance \<Rightarrow> jsnum option" where
  "sliceLevel a b =
     (case (sliceLocation a, sliceLocation b) of
        (Some la, Some lb) \<Rightarrow>
          (let sliceDiff = jsub la lb
           in if exceedsTolerance sliceDiff then Some sliceDiff else None)
      | _ \<Rightarrow> None)"

text \<open>The comparator passed to \<open>sort\<close>, lines 299-324.\<close>

definition compareInstances :: "DicomInstance \<Rightarrow> DicomInstance \<Rightarrow> jsnum" where
  "compareInstances a b =
     (case zLevel a b of
        Some zDiff \<Rightarrow> zDiff
      | None \<Rightarrow>
     (case sliceLevel a b of
        Some sliceDiff \<Rightarrow> sliceDiff
      | None \<Rightarrow>
     (case (instanceNumber a, instanceNumber b) of
        (Some na, Some nb) \<Rightarrow> jsub na nb
      | _ \<Rightarrow>
     (case (acquisitionNumber a, acquisitionNumber b) of
        (Some qa, Some qb) \<Rightarrow> jsub qa qb
      | _ \<Rightarrow> Fin (of_int (localeCompare (filePath a) (filePath b)))))))"

text \<open>
  \<open>Array.prototype.sort\<close> belongs to the runtime. The language fixes how it reads the
  comparator (a NaN result counts as \<open>+0\<close>) and requires a stable sort; the order of the
  comparisons is the engine's. The model is the stable insertion sort: an element goes
  in front of the first element of the sorted rest that it does not compare greater than.
\<close>

definition SortCompare :: "('a \<Rightarrow> 'a \<Rightarrow> jsnum) \<Rightarrow> 'a \<Rightarrow> 'a \<Rightarrow> jsnum" where
  "SortCompare comparefn x y = (let v = comparefn x y in if isNaN v then Fin 0 else v)"

fun sort_insert :: "('a \<Rightarrow> 'a \<Rightarrow> jsnum) \<Rightarrow> 'a \<Rightarrow> 'a list \<Rightarrow> 'a list" where
  "sort_insert comparefn x [] = [x]"
| "sort_insert comparefn x (y # ys) =
     (if jgt (SortCompare comparefn x y) (Fin 0) then y # sort_insert comparefn x ys
      else x # y # ys)"

fun Array_sort :: "('a \<Rightarrow> 'a \<Rightarrow> jsnum) \<Rightarrow> 'a list \<Rightarrow> 'a list" where
  "Array_sort comparefn [] = []"
| "Array_sort comparefn (x # xs) = sort_insert comparefn x (Array_sort comparefn xs)"

definition sortInstances :: "DicomInstance list \<Rightarrow> DicomInstance list" where
  "sortInstances insts = Array_sort compareInstances insts"

text \<open>\<open>a\<close> compares less than or equal to \<open>b\<close>: the comparator's verdict, as \<open>sort\<close> reads
  it, is not positive.\<close>

definition compares_le :: "DicomInstance \<Rightarrow> DicomInstance \<Rightarrow> bool" where
  "compares_le a b = (\<not> jgt (SortCompare compareInstances a b) (Fin 0))"


section \<open>Hierarchy builder (utils/dicomParser.ts, groupDicomFiles)\<close>

definition newStudy :: "ParsedDicomFile \<Rightarrow> DicomStudy" where
  "newStudy file =
     \<lparr> studyInstanceUID = file_studyInstanceUID file,
       studyDate = info_studyDate (studyInfo file),
       studyTime = info_studyTime (studyInfo file),
       studyDescription = info_studyDescription (studyInfo file),
       patientName = info_patientName (studyInfo file),
       patientId = info_patientId (studyInfo file),
       patientBirthDate = info_patientBirthDate (studyInfo file),
       patientSex = info_patientSex (studyInfo file),
       accessionNumber = info_accessionNumber (studyInfo file),
       institutionName = info_institutionName (studyInfo file),
       referringPhysicianName = info_referringPhysicianName (studyInfo file),
       series = [] \<rparr>"

definition newSeries :: "ParsedDicomFile \<Rightarrow> DicomSeries" where
  "newSeries file =
     \<lparr> seriesInstanceUID = file_seriesInstanceUID file,
       seriesNumber = info_seriesNumber (seriesInfo file),
       seriesDescription = info_seriesDescription (seriesInfo file),
       modality = nullish (info_modality (seriesInfo file)) ''OT'',
       series_studyInstanceUID = file_studyInstanceUID file,
       instances = [],
       sortedInstances = [],
       thumbnailImageId = None \<rparr>"

text \<open>
  One turn of the loop over the files, lines 333-371. The source creates the study and the
  series objects on first sight, stores them in their maps and then pushes the instance
  onto the series reached through the map; the model writes the updated series and study
  back under their keys, which leaves every entry where the source has it.
\<close>

definition addFile ::
  "(string \<times> DicomStudy) list \<Rightarrow> ParsedDicomFile \<Rightarrow> (string \<times> DicomStudy) list" where
  "addFile studies file =
     (let study = (case map_get studies (file_studyInstanceUID file) of
                     None \<Rightarrow> newStudy file
                   | Some s \<Rightarrow> s);
          se = (case map_get (series study) (file_seriesInstanceUID file) of
                  None \<Rightarrow> newSeries file
                | Some s \<Rightarrow> s);
          se' = se \<lparr> instances := instances se @ [instance file] \<rparr>;
          study' = study \<lparr> series := map_set (series study) (file_seriesInstanceUID file) se' \<rparr>
      in map_set studies (file_studyInstanceUID file) study')"

text \<open>The second loop, lines 374-378.\<close>

definition sortSeries :: "DicomSeries \<Rightarrow> DicomSeries" where
  "sortSeries se = se \<lparr> sortedInstances := sortInstances (instances se) \<rparr>"

definition sortStudy :: "DicomStudy \<Rightarrow> DicomStudy" where
  "sortStudy study = study \<lparr> series := map (\<lambda>(k, se). (k, sortSeries se)) (series study) \<rparr>"

definition groupDicomFiles :: "ParsedDicomFile list \<Rightarrow> (string \<times> DicomStudy) list" where
  "groupDicomFiles parsedFiles =
     map (\<lambda>(k, study). (k, sortStudy study)) (foldl addFile [] parsedFiles)"


section \<open>Window selection (Viewport.tsx, renderImage, lines 105-114)\<close>

record viewerState =
  vs_windowCenter :: jsnum
  vs_windowWidth :: jsnum
  zoom :: jsnum
  panX :: jsnum
  panY :: jsnum

definition initialViewerState :: viewerState where
  "initialViewerState =
     \<lparr> vs_windowCenter = Fin 40, vs_windowWidth = Fin 400,
       zoom = Fin 1, panX = Fin 0, panY = Fin 0 \<rparr>"

text \<open>
  The window used for a frame, given what \<open>dataSet.string\<close> returned for the two window
  tags (\<open>None\<close> is \<open>undefined\<close>): the file's first values when both strings are non-empty,
  the viewer state otherwise. There is no test of the sign of the width.
\<close>

definition selectWindow ::
  "viewerState \<Rightarrow> string option \<Rightarrow> string option \<Rightarrow> jsnum \<times> jsnum" where
  "selectWindow st wcStr wwStr =
     (case (wcStr, wwStr) of
        (Some c, Some w) \<Rightarrow>
          if c \<noteq> [] \<and> w \<noteq> [] then
            (parseFloat (hd (split backslash c)), parseFloat (hd (split backslash w)))
          else (vs_windowCenter st, vs_windowWidth st)
      | _ \<Rightarrow> (vs_windowCenter st, vs_windowWidth st))"


text \<open>
  The rescale parameters, lines 102-103: \<open>parseFloat(dataSet.string(tag) || fallback)\<close>,
  with the fallback text \<open>1\<close> for the slope and \<open>0\<close> for the intercept.
\<close>

definition rescaleParameter :: "string option \<Rightarrow> string \<Rightarrow> jsnum" where
  "rescaleParameter str fallback =
     (case str of
        None \<Rightarrow> parseFloat fallback
      | Some s \<Rightarrow> if s = [] then parseFloat fallback else parseFloat s)"


section \<open>Notions used in the statements and proofs\<close>

text \<open>The tags of the three required identifiers: study, series and instance UID.\<close>

definition requiredTags :: "string list" where
  "requiredTags = [''x0020000d'', ''x0020000e'', ''x00080018'']"

text \<open>How \<open>sort\<close> reads a comparator result, and a list whose neighbours are in order
  under that reading.\<close>

definition verdict :: "jsnum \<Rightarrow> jsnum" where
  "verdict v = (if isNaN v then Fin 0 else v)"

definition in_order :: "('a \<Rightarrow> 'a \<Rightarrow> jsnum) \<Rightarrow> 'a list \<Rightarrow> bool" where
  "in_order f xs = successively (\<lambda>u v. \<not> jgt (SortCompare f u v) (Fin 0)) xs"

text \<open>
  Two instances carry the same keys when each of the four optional ordering keys is
  present in both or in neither. An instance has usable numbers when neither its instance
  number nor its acquisition number is NaN.
\<close>

definition sameKeys :: "DicomInstance \<Rightarrow> DicomInstance \<Rightarrow> bool" where
  "sameKeys a b =
     (((imagePositionPatient a = None) = (imagePositionPatient b = None))
      \<and> ((sliceLocation a = None) = (sliceLocation b = None))
      \<and> ((instanceNumber a = None) = (instanceNumber b = None))
      \<and> ((acquisitionNumber a = None) = (acquisitionNumber b = None)))"

definition usableNumber :: "jsnum option \<Rightarrow> bool" where
  "usableNumber k = (case k of None \<Rightarrow> True | Some x \<Rightarrow> \<not> isNaN x)"

definition usableNumbers :: "DicomInstance \<Rightarrow> bool" where
  "usableNumbers a = (usableNumber (instanceNumber a) \<and> usableNumber (acquisitionNumber a))"

text \<open>
  Two values are close when the guard lets their difference fall through to the next
  level, and one is before the other when the guard passes a negative difference.
  Closeness is transitive among three values when no two of the three pairs are close
  without the third.
\<close>

definition close :: "jsnum \<Rightarrow> jsnum \<Rightarrow> bool" where
  "close x y = (\<not> exceedsTolerance (jsub x y))"

definition before :: "jsnum \<Rightarrow> jsnum \<Rightarrow> bool" where
  "before x y = (exceedsTolerance (jsub x y) \<and> jlt (jsub x y) (Fin 0))"

definition closeTransitive :: "jsnum \<Rightarrow> jsnum \<Rightarrow> jsnum \<Rightarrow> bool" where
  "closeTransitive x y z =
     ((close x y \<and> close y z \<longrightarrow> close x z)
      \<and> (close x y \<and> close x z \<longrightarrow> close y z)
      \<and> (close x z \<and> close y z \<longrightarrow> close x y))"

definition zKey :: "DicomInstance \<Rightarrow> jsnum option" where
  "zKey a = map_option (\<lambda>p. at_index p 2) (imagePositionPatient a)"

definition keysCloseTransitive ::
  "jsnum option \<Rightarrow> jsnum option \<Rightarrow> jsnum option \<Rightarrow> bool" where
  "keysCloseTransitive ka kb kc =
     (case (ka, kb, kc) of
        (Some x, Some y, Some z) \<Rightarrow> closeTransitive x y z
      | _ \<Rightarrow> True)"

definition closenessTransitive ::
  "DicomInstance \<Rightarrow> DicomInstance \<Rightarrow> DicomInstance \<Rightarrow> bool" where
  "closenessTransitive a b c =
     (keysCloseTransitive (zKey a) (zKey b) (zKey c)
      \<and> keysCloseTransitive (sliceLocation a) (sliceLocation b) (sliceLocation c))"

text \<open>The lexicographic reading of the comparator's verdict.\<close>

definition keyBefore :: "jsnum option \<Rightarrow> jsnum option \<Rightarrow> bool" where
  "keyBefore ka kb = (case (ka, kb) of (Some x, Some y) \<Rightarrow> before x y | _ \<Rightarrow> False)"

definition keyClose :: "jsnum option \<Rightarrow> jsnum option \<Rightarrow> bool" where
  "keyClose ka kb = (case (ka, kb) of (Some x, Some y) \<Rightarrow> close x y | _ \<Rightarrow> True)"

definition tailLe :: "DicomInstance \<Rightarrow> DicomInstance \<Rightarrow> bool" where
  "tailLe a b =
     (case (instanceNumber a, instanceNumber b) of
        (Some x, Some y) \<Rightarrow> \<not> jlt y x
      | _ \<Rightarrow>
     (case (acquisitionNumber a, acquisitionNumber b) of
        (Some x, Some y) \<Rightarrow> \<not> jlt y x
      | _ \<Rightarrow> localeCompare (filePath a) (filePath b) \<le> 0))"

definition lexLe :: "DicomInstance \<Rightarrow> DicomInstance \<Rightarrow> bool" where
  "lexLe a b =
     (keyBefore (zKey a) (zKey b)
      \<or> (keyClose (zKey a) (zKey b)
          \<and> (keyBefore (sliceLocation a) (sliceLocation b)
              \<or> (keyClose (sliceLocation a) (sliceLocation b) \<and> tailLe a b))))"

text \<open>
  Rounding to the nearest integer with ties to the even one, and with it the rounding of
  a value between \<open>1 / 2 ^ 10\<close> and \<open>1 / 2 ^ 9\<close>, where \<open>0.001\<close> lies, to the nearest
  double: the doubles there are the multiples of \<open>1 / 2 ^ 62\<close>.
\<close>

definition roundHalfEven :: "rat \<Rightarrow> int" where
  "roundHalfEven t =
     (let f = \<lfloor>t\<rfloor> in
      if t - of_int f < 1 / 2 then f
      else if 1 / 2 < t - of_int f then f + 1
      else if even f then f else f + 1)"

definition roundNearTolerance :: "rat \<Rightarrow> rat" where
  "roundNearTolerance t = of_int (roundHalfEven (t * 2 ^ 62)) / 2 ^ 62"


section \<open>Concrete inputs\<close>

text \<open>The helpers of tests/dicomParser.test.ts; the random path and UID of
  \<open>createInstance\<close> are parameters.\<close>

definition createInstance :: "string \<Rightarrow> string \<Rightarrow> DicomInstance" where
  "createInstance path uid =
     \<lparr> filePath = path, sopInstanceUID = uid, instanceNumber = None,
       imagePositionPatient = None, sliceLocation = None, acquisitionNumber = None,
       rows = Some 512, columns = Some 512, bitsAllocated = Some 16, bitsStored = Some 12,
       pixelRepresentation = Some 0, photometricInterpretation = Some ''MONOCHROME2'',
       rescaleSlope = Some (Fin 1), rescaleIntercept = Some (Fin 0),
       windowCenter = Some (Single (Fin 40)), windowWidth = Some (Single (Fin 400)),
       numberOfFrames = None, transferSyntaxUID = Some ''1.2.840.10008.1.2.1'' \<rparr>"

definition createParsedFile :: "string \<Rightarrow> string \<Rightarrow> string \<Rightarrow> ParsedDicomFile" where
  "createParsedFile studyUID seriesUID sopUID =
     \<lparr> file_filePath = ''/path/to/'' @ sopUID @ ''.dcm'',
       file_studyInstanceUID = studyUID,
       file_seriesInstanceUID = seriesUID,
       file_sopInstanceUID = sopUID,
       instance = createInstance (''/path/to/file_'' @ sopUID @ ''.dcm'') sopUID,
       studyInfo =
         \<lparr> info_studyInstanceUID = Some studyUID, info_studyDate = None, info_studyTime = None,
           info_studyDescription = None, info_patientName = None, info_patientId = None,
           info_patientBirthDate = None, info_patientSex = None, info_accessionNumber = None,
           info_institutionName = None, info_referringPhysicianName = None \<rparr>,
       seriesInfo =
         \<lparr> info_seriesInstanceUID = Some seriesUID, info_seriesNumber = None,
           info_seriesDescription = None, info_modality = Some ''OT'',
           info_series_studyInstanceUID = Some studyUID \<rparr>,
       metadata = [] \<rparr>"

text \<open>Three slices at the doubles 0, 0.001 and 0.002 in Z, numbered against their
  positions.\<close>

definition nearSliceA :: DicomInstance where
  "nearSliceA = (createInstance ''/scan/a.dcm'' ''1.2.3.1'')
     \<lparr> imagePositionPatient := Some [Fin 0, Fin 0, Fin 0], instanceNumber := Some (Fin 3) \<rparr>"

definition nearSliceB :: DicomInstance where
  "nearSliceB = (createInstance ''/scan/b.dcm'' ''1.2.3.2'')
     \<lparr> imagePositionPatient := Some [Fin 0, Fin 0, Fin double_0_001],
       instanceNumber := Some (Fin 2) \<rparr>"

definition nearSliceC :: DicomInstance where
  "nearSliceC = (createInstance ''/scan/c.dcm'' ''1.2.3.3'')
     \<lparr> imagePositionPatient := Some [Fin 0, Fin 0, Fin (2 * double_0_001)],
       instanceNumber := Some (Fin 1) \<rparr>"

text \<open>Three slices with numeric noise: two at Z 10 and \<open>10 + 1 / 4096\<close>, within the
  tolerance of each other, and one at Z 20.\<close>

definition noisySlice1 :: DicomInstance where
  "noisySlice1 = (createInstance ''/scan/s1.dcm'' ''1.2.4.1'')
     \<lparr> imagePositionPatient := Some [Fin 0, Fin 0, Fin 10], instanceNumber := Some (Fin 1) \<rparr>"

definition noisySlice2 :: DicomInstance where
  "noisySlice2 = (createInstance ''/scan/s2.dcm'' ''1.2.4.2'')
     \<lparr> imagePositionPatient := Some [Fin 0, Fin 0, Fin (10 + 1 / 4096)],
       instanceNumber := Some (Fin 2) \<rparr>"

definition noisySlice3 :: DicomInstance where
  "noisySlice3 = (createInstance ''/scan/s3.dcm'' ''1.2.4.3'')
     \<lparr> imagePositionPatient := Some [Fin 0, Fin 0, Fin 20], instanceNumber := Some (Fin 3) \<rparr>"

text \<open>Three instances as in the test of mixed criteria: the middle one carries no
  position.\<close>

definition mixedA :: DicomInstance where
  "mixedA = (createInstance ''/scan/a.dcm'' ''1.2.6.1'')
     \<lparr> imagePositionPatient := Some [Fin 0, Fin 0, Fin 30] \<rparr>"

definition mixedB :: DicomInstance where
  "mixedB = createInstance ''/scan/b.dcm'' ''1.2.6.2''"

definition mixedC :: DicomInstance where
  "mixedC = (createInstance ''/scan/c.dcm'' ''1.2.6.3'')
     \<lparr> imagePositionPatient := Some [Fin 0, Fin 0, Fin 10] \<rparr>"

text \<open>Three instances without positions, the middle one with the instance number NaN.\<close>

definition nanNumberA :: DicomInstance where
  "nanNumberA = (createInstance ''/scan/a.dcm'' ''1.2.7.1'') \<lparr> instanceNumber := Some (Fin 1) \<rparr>"

definition nanNumberB :: DicomInstance where
  "nanNumberB = (createInstance ''/scan/b.dcm'' ''1.2.7.2'') \<lparr> instanceNumber := Some NaN \<rparr>"

definition nanNumberC :: DicomInstance where
  "nanNumberC = (createInstance ''/scan/c.dcm'' ''1.2.7.3'') \<lparr> instanceNumber := Some (Fin 0) \<rparr>"

text \<open>Two instances with the same instance number, different acquisition numbers and
  different paths.\<close>

definition sameNumberA :: DicomInstance where
  "sameNumberA = (createInstance ''/scan/a.dcm'' ''1.2.5.1'')
     \<lparr> instanceNumber := Some (Fin 5), acquisitionNumber := Some (Fin 1) \<rparr>"

definition sameNumberB :: DicomInstance where
  "sameNumberB = (createInstance ''/scan/b.dcm'' ''1.2.5.2'')
     \<lparr> instanceNumber := Some (Fin 5), acquisitionNumber := Some (Fin 2) \<rparr>"

text \<open>A data set holding the given text elements and nothing else, and a library stub
  that throws on an empty buffer and returns the given data set otherwise.\<close>

definition textDataSet :: "(string \<times> string) list \<Rightarrow> dataSet" where
  "textDataSet tbl =
     \<lparr> ds_string = (\<lambda>t. case map_get tbl t of None \<Rightarrow> Undefined | Some s \<Rightarrow> Returns s),
       ds_uint16 = (\<lambda>t. Undefined),
       elements = map (\<lambda>(t, s). (t, \<lparr> el_vr = None, el_length = length s \<rparr>)) tbl \<rparr>"

definition stubParseDicom :: "dataSet \<Rightarrow> byte list \<Rightarrow> exn + dataSet" where
  "stubParseDicom ds buf = (if buf = [] then Inl (Exn ''no data'') else Inr ds)"

definition noSopDataSet :: dataSet where
  "noSopDataSet = textDataSet
     [(''x0020000d'', ''1.2.3''), (''x0020000e'', ''1.2.3.4''), (''x00200013'', ''7''),
      (''x00281050'', ''40''), (''x00281051'', ''400''), (''x00080060'', ''CT'')]"

definition ctDataSet :: dataSet where
  "ctDataSet = textDataSet
     [(''x0020000d'', ''1.2.3''), (''x0020000e'', ''1.2.3.4''), (''x00080018'', ''1.2.3.4.5''),
      (''x00200013'', ''7''), (''x00281050'', ''40''), (''x00281051'', ''400''),
      (''x00080060'', ''CT'')]"

definition oddDataSet :: dataSet where
  "oddDataSet = textDataSet
     [(''x0020000d'', ''1.2.3''), (''x0020000e'', ''1.2.3.4''), (''x00080018'', ''1.2.3.4.5''),
      (''x00200032'', ''0'' @ [backslash] @ ''abc'' @ [backslash] @ ''12.5''),
      (''x00281050'', ''40'' @ [backslash] @ ''abc''),
      (''x00281051'', ''wide''),
      (''x00200013'', ''Infinity''),
      (''x00201041'', ''n/a'')]"


section \<open>The pixel transform at the window 40 / 400\<close>

lemmas pixel_defs = renderPixel_def displayValue_def windowBranch_def modalityValue_def
  windowLow_def windowHigh_def jsub_def jge_def jgt_def

text \<open>
  C1. With window center 40 and width 400 the bounds are \<open>-160\<close> and 240; a modality value
  of \<open>-200\<close> is displayed as 0, one of 300 as 255, and the center 40 as 128, the scaled
  value 127.5 being rounded by \<open>Math.round\<close>, which sends a tie upwards. With slope 2 and
  intercept \<open>-1000\<close> the raw sample 600 has modality value 200 and the scaled value 229.5,
  displayed as 230 under the same rule. The modality value of finite inputs is
  \<open>raw * slope + intercept\<close>; a modality value at or below the lower bound is displayed as
  0, and, for a finite center and a positive width, one at or above the upper bound as 255.
\<close>

theorem pixel_transform_window_40_400:
  "windowLow (Fin 40) (Fin 400) = Fin (- 160)
   \<and> windowHigh (Fin 40) (Fin 400) = Fin 240
   \<and> renderPixel (Fin (- 200)) (Fin 1) (Fin 0) (Fin 40) (Fin 400) = 0
   \<and> renderPixel (Fin 300) (Fin 1) (Fin 0) (Fin 40) (Fin 400) = 255
   \<and> renderPixel (Fin 40) (Fin 1) (Fin 0) (Fin 40) (Fin 400) = 128
   \<and> modalityValue (Fin 600) (Fin 2) (Fin (- 1000)) = Fin 200
   \<and> displayValue (Fin 200) (Fin (- 160)) (Fin 240) (Fin 400) = Math_round (Fin (459 / 2))
   \<and> renderPixel (Fin 600) (Fin 2) (Fin (- 1000)) (Fin 40) (Fin 400) = 230
   \<and> modalityValue (Fin p) (Fin s) (Fin i) = Fin (p * s + i)
   \<and> (jle (modalityValue raw slope icpt) (windowLow wc ww) \<longrightarrow>
        renderPixel raw slope icpt wc ww = 0)
   \<and> (jgt ww (Fin 0) \<and> jge (modalityValue raw slope icpt) (windowHigh (Fin c) ww) \<longrightarrow>
        renderPixel raw slope icpt (Fin c) ww = 255)"
proof -
  have "jgt ww (Fin 0) \<Longrightarrow> jge mv (windowHigh (Fin c) ww) \<Longrightarrow> \<not> jle mv (windowLow (Fin c) ww)"
    for mv
    by (cases mv; cases ww) (auto simp: pixel_defs split: if_splits)
  then show ?thesis
    by (simp add: pixel_defs)
qed

theorem pixel_transform_window_40_400_witness:
  "jle (modalityValue (Fin (- 1000)) (Fin 1) (Fin 0)) (windowLow (Fin 40) (Fin 400))
   \<and> renderPixel (Fin (- 1000)) (Fin 1) (Fin 0) (Fin 40) (Fin 400) = 0
   \<and> jgt (Fin 400) (Fin 0)
   \<and> jge (modalityValue (Fin 3000) (Fin 1) (Fin 0)) (windowHigh (Fin 40) (Fin 400))
   \<and> renderPixel (Fin 3000) (Fin 1) (Fin 0) (Fin 40) (Fin 400) = 255"
proof -
  have lo: "jle (modalityValue (Fin (- 1000)) (Fin 1) (Fin 0)) (windowLow (Fin 40) (Fin 400))"
    by (simp add: pixel_defs)
  have hi: "jgt (Fin 400) (Fin 0)
            \<and> jge (modalityValue (Fin 3000) (Fin 1) (Fin 0)) (windowHigh (Fin 40) (Fin 400))"
    by (simp add: pixel_defs)
  from lo hi
    pixel_transform_window_40_400
      [where raw = "Fin (- 1000)" and slope = "Fin 1" and icpt = "Fin 0"
         and wc = "Fin 40" and ww = "Fin 400"]
    pixel_transform_window_40_400
      [where raw = "Fin 3000" and slope = "Fin 1" and icpt = "Fin 0"
         and c = 40 and ww = "Fin 400"]
  show ?thesis by blast
qed

section \<open>The decoder's required-field gate and totality\<close>

text \<open>
  C2. When the library returns a data set in which the accessor for one of the three
  required identifiers returns \<open>undefined\<close> (absent) or throws (unreadable), the decoder
  returns \<open>null\<close>, whatever the other fields hold.
\<close>

theorem required_uid_gate:
  assumes "parseDicom arrayBuffer = Inr dataSet"
    and "t \<in> set requiredTags"
    and "ds_string dataSet t = Undefined \<or> ds_string dataSet t = Throws"
  shows "parseDicomFile parseDicom arrayBuffer path = None"
  using assms
  by (auto simp: parseDicomFile_def parseDicomFile_try_def getString_def requiredTags_def Let_def)

theorem required_uid_gate_witness:
  "stubParseDicom noSopDataSet [0] = Inr noSopDataSet
   \<and> ''x00080018'' \<in> set requiredTags
   \<and> ds_string noSopDataSet ''x00080018'' = Undefined
   \<and> getNumber noSopDataSet ''x00200013'' = Some (Fin 7)
   \<and> parseDicomFile (stubParseDicom noSopDataSet) [0] ''/scan/a.dcm'' = None"
proof -
  have p: "stubParseDicom noSopDataSet [0] = Inr noSopDataSet"
    by (simp add: stubParseDicom_def)
  have t: "''x00080018'' \<in> set requiredTags"
    by (simp add: requiredTags_def)
  have u: "ds_string noSopDataSet ''x00080018'' = Undefined"
    by (simp add: noSopDataSet_def textDataSet_def)
  have n: "getNumber noSopDataSet ''x00200013'' = Some (Fin 7)"
    by code_simp
  from u have d: "ds_string noSopDataSet ''x00080018'' = Undefined
                  \<or> ds_string noSopDataSet ''x00080018'' = Throws" ..
  have "parseDicomFile (stubParseDicom noSopDataSet) [0] ''/scan/a.dcm'' = None"
    using p t d
    by (rule required_uid_gate
          [of "stubParseDicom noSopDataSet" "[0]" noSopDataSet "''x00080018''" "''/scan/a.dcm''"])
  with p t u n show ?thesis
    by blast
qed

text \<open>
  C10. The decoder returns a value for every buffer and path. When the library throws, the
  result is \<open>null\<close>. When the library returns a data set, the result is \<open>null\<close> if one of
  the three identifiers is missing or empty, and otherwise a record that carries the path,
  the three identifiers, the instance, the study and series information and the tag map.
  An accessor that throws is a missing field, never a failure of the call.
\<close>

theorem parseDicomFile_total:
  "(parseDicom arrayBuffer = Inl e \<longrightarrow> parseDicomFile parseDicom arrayBuffer path = None)
   \<and> (parseDicom arrayBuffer = Inr dataSet \<longrightarrow>
        (if truthy (getString dataSet ''x0020000d'') \<and> truthy (getString dataSet ''x0020000e'')
            \<and> truthy (getString dataSet ''x00080018'')
         then \<exists>r. parseDicomFile parseDicom arrayBuffer path = Some r
                \<and> file_filePath r = path
                \<and> filePath (instance r) = path
                \<and> getString dataSet ''x0020000d'' = Some (file_studyInstanceUID r)
                \<and> getString dataSet ''x0020000e'' = Some (file_seriesInstanceUID r)
                \<and> getString dataSet ''x00080018'' = Some (file_sopInstanceUID r)
                \<and> sopInstanceUID (instance r) = file_sopInstanceUID r
                \<and> info_studyInstanceUID (studyInfo r) = Some (file_studyInstanceUID r)
                \<and> info_seriesInstanceUID (seriesInfo r) = Some (file_seriesInstanceUID r)
                \<and> metadata r = extractMetadata dataSet
         else parseDicomFile parseDicom arrayBuffer path = None))"
  by (cases "getString dataSet ''x0020000d''"; cases "getString dataSet ''x0020000e''";
      cases "getString dataSet ''x00080018''")
     (simp_all add: parseDicomFile_def parseDicomFile_try_def Let_def nullish_def)

theorem parseDicomFile_total_witness:
  "stubParseDicom ctDataSet [] = Inl (Exn ''no data'')
   \<and> parseDicomFile (stubParseDicom ctDataSet) [] ''/scan/a.dcm'' = None
   \<and> stubParseDicom ctDataSet [0] = Inr ctDataSet
   \<and> truthy (getString ctDataSet ''x0020000d'')
   \<and> truthy (getString ctDataSet ''x0020000e'')
   \<and> truthy (getString ctDataSet ''x00080018'')
   \<and> (\<exists>r. parseDicomFile (stubParseDicom ctDataSet) [0] ''/scan/a.dcm'' = Some r
          \<and> file_filePath r = ''/scan/a.dcm''
          \<and> file_sopInstanceUID r = ''1.2.3.4.5''
          \<and> metadata r = extractMetadata ctDataSet)"
proof -
  have thrown: "stubParseDicom ctDataSet [] = Inl (Exn ''no data'')"
    by (simp add: stubParseDicom_def)
  have returned: "stubParseDicom ctDataSet [0] = Inr ctDataSet"
    by (simp add: stubParseDicom_def)
  have uids: "getString ctDataSet ''x0020000d'' = Some ''1.2.3''"
    "getString ctDataSet ''x0020000e'' = Some ''1.2.3.4''"
    "getString ctDataSet ''x00080018'' = Some ''1.2.3.4.5''"
    by code_simp+
  from parseDicomFile_total
         [of "stubParseDicom ctDataSet" "[]" "Exn ''no data''" "''/scan/a.dcm''" ctDataSet]
       thrown
  have 1: "parseDicomFile (stubParseDicom ctDataSet) [] ''/scan/a.dcm'' = None"
    by blast
  from parseDicomFile_total
         [of "stubParseDicom ctDataSet" "[0]" "Exn ''no data''" "''/scan/a.dcm''" ctDataSet]
       returned uids
  have 2: "\<exists>r. parseDicomFile (stubParseDicom ctDataSet) [0] ''/scan/a.dcm'' = Some r
          \<and> file_filePath r = ''/scan/a.dcm''
          \<and> file_sopInstanceUID r = ''1.2.3.4.5''
          \<and> metadata r = extractMetadata ctDataSet"
    by auto
  from thrown returned uids 1 2 show ?thesis
    by simp
qed


section \<open>Numeric fields of the decoder\<close>

text \<open>
  C9, as stated, fails: the text \<open>Infinity\<close> in the instance-number element is decoded as
  the number \<open>+\<infinity>\<close>, not as an absent value.
\<close>

theorem getNumber_keeps_infinity:
  "getNumber oddDataSet ''x00200013'' = Some PosInf
   \<and> map_option (\<lambda>r. instanceNumber (instance r))
       (parseDicomFile (stubParseDicom oddDataSet) [0] ''/scan/a.dcm'') = Some (Some PosInf)"
  by code_simp

text \<open>
  C9, amended. \<open>getNumber\<close> never yields NaN. It yields \<open>null\<close> when the accessor throws
  or returns \<open>undefined\<close>, and when the text parses to NaN; any other text yields the
  parsed number, the infinities included.
\<close>

theorem getNumber_absent_iff_nan:
  "getNumber dataSet t \<noteq> Some NaN
   \<and> (ds_string dataSet t = Throws \<longrightarrow> getNumber dataSet t = None)
   \<and> (ds_string dataSet t = Undefined \<longrightarrow> getNumber dataSet t = None)
   \<and> (ds_string dataSet t = Returns s \<longrightarrow>
        getNumber dataSet t = (if parseFloat s = NaN then None else Some (parseFloat s)))"
  by (cases "ds_string dataSet t"; cases "parseFloat s")
     (auto simp: getNumber_def Let_def elim: isNaN.elims)

theorem getNumber_absent_iff_nan_witness:
  "ds_string oddDataSet ''x00280008'' = Undefined
   \<and> getNumber oddDataSet ''x00280008'' = None
   \<and> ds_string oddDataSet ''x00201041'' = Returns ''n/a''
   \<and> parseFloat ''n/a'' = NaN
   \<and> getNumber oddDataSet ''x00201041'' = None
   \<and> ds_string oddDataSet ''x00200013'' = Returns ''Infinity''
   \<and> parseFloat ''Infinity'' = PosInf
   \<and> getNumber oddDataSet ''x00200013'' = Some PosInf"
proof -
  have a: "ds_string oddDataSet ''x00280008'' = Undefined"
    by code_simp
  have b: "ds_string oddDataSet ''x00201041'' = Returns ''n/a''"
    by code_simp
  have c: "ds_string oddDataSet ''x00200013'' = Returns ''Infinity''"
    by code_simp
  have pb: "parseFloat ''n/a'' = NaN"
    by code_simp
  have pc: "parseFloat ''Infinity'' = PosInf"
    by code_simp
  from a b c pb pc
    getNumber_absent_iff_nan [of oddDataSet "''x00280008''" "[]"]
    getNumber_absent_iff_nan [of oddDataSet "''x00201041''" "''n/a''"]
    getNumber_absent_iff_nan [of oddDataSet "''x00200013''" "''Infinity''"]
  show ?thesis by simp
qed


section \<open>Multi-valued fields of the decoder\<close>

text \<open>
  C6 holds for the image position, which goes through \<open>getNumberArray\<close>, and not for the
  window values, which are parsed in place without the NaN test: in this data set the
  position with the components \<open>0\<close>, \<open>abc\<close> and \<open>12.5\<close> is decoded as absent, the window
  center with the components \<open>40\<close> and \<open>abc\<close> as the vector of 40 and NaN, and the window
  width \<open>wide\<close> as NaN.
\<close>

theorem window_values_keep_nan:
  "map_option (\<lambda>r. (imagePositionPatient (instance r), windowCenter (instance r),
                      windowWidth (instance r)))
     (parseDicomFile (stubParseDicom oddDataSet) [0] ''/scan/a.dcm'')
   = Some (None, Some (Array [Fin 40, NaN]), Some (Single NaN))"
  by code_simp


section \<open>Window selection and the division by the width\<close>

text \<open>
  C7, as stated, fails: a file whose window center is \<open>40\<close> and whose window width is \<open>0\<close>
  is rendered with the window (40, 0), not with the default; and with that window a
  modality value that is NaN (here from the rescale slope text \<open>n/a\<close>) reaches the
  branch that divides by the width.
\<close>

theorem selectWindow_keeps_nonpositive_width:
  "selectWindow initialViewerState (Some ''40'') (Some ''0'') = (Fin 40, Fin 0)
   \<and> \<not> jgt (Fin 0) (Fin 0)
   \<and> rescaleParameter (Some ''n/a'') ''1'' = NaN
   \<and> rescaleParameter None ''0'' = Fin 0
   \<and> windowBranch
        (modalityValue (Fin 100) (rescaleParameter (Some ''n/a'') ''1'')
           (rescaleParameter None ''0''))
        (windowLow (Fin 40) (Fin 0)) (windowHigh (Fin 40) (Fin 0)) = Scaled"
  by code_simp

text \<open>
  C7, amended. The window of the viewer state, initially (40, 400), is used when the file's
  window center or window width text is missing or empty; when both are present the first
  value of each is used as parsed, whatever its sign. When the width is not positive and
  neither it, the center nor the modality value is NaN, the transform takes one of the
  two clamp branches, so the division by the width is not evaluated.
\<close>

theorem window_selection_and_clamp:
  "(\<not> truthy wcStr \<or> \<not> truthy wwStr \<longrightarrow>
      selectWindow st wcStr wwStr = (vs_windowCenter st, vs_windowWidth st))
   \<and> selectWindow initialViewerState None None = (Fin 40, Fin 400)
   \<and> (c \<noteq> [] \<and> w \<noteq> [] \<longrightarrow>
        selectWindow st (Some c) (Some w)
          = (parseFloat (hd (split backslash c)), parseFloat (hd (split backslash w))))
   \<and> (\<not> isNaN mv \<and> \<not> isNaN wc \<and> \<not> isNaN ww \<and> \<not> jgt ww (Fin 0) \<longrightarrow>
        windowBranch mv (windowLow wc ww) (windowHigh wc ww) \<noteq> Scaled)"
proof (intro conjI impI)
  assume "\<not> isNaN mv \<and> \<not> isNaN wc \<and> \<not> isNaN ww \<and> \<not> jgt ww (Fin 0)"
  then show "windowBranch mv (windowLow wc ww) (windowHigh wc ww) \<noteq> Scaled"
    by (cases mv; cases wc; cases ww) (auto simp: pixel_defs)
next
  assume "\<not> truthy wcStr \<or> \<not> truthy wwStr"
  then show "selectWindow st wcStr wwStr = (vs_windowCenter st, vs_windowWidth st)"
    by (cases wcStr; cases wwStr) (auto simp: selectWindow_def)
next
  show "selectWindow initialViewerState None None = (Fin 40, Fin 400)"
    by (simp add: selectWindow_def initialViewerState_def)
next
  assume "c \<noteq> [] \<and> w \<noteq> []"
  then show "selectWindow st (Some c) (Some w)
          = (parseFloat (hd (split backslash c)), parseFloat (hd (split backslash w)))"
    by (simp add: selectWindow_def)
qed

theorem window_selection_and_clamp_witness:
  "\<not> truthy (Some [])
   \<and> selectWindow initialViewerState (Some []) (Some ''350'') = (Fin 40, Fin 400)
   \<and> selectWindow initialViewerState (Some ''50'') (Some ''-350'') = (Fin 50, Fin (- 350))
   \<and> \<not> isNaN (Fin 100) \<and> \<not> isNaN (Fin 50) \<and> \<not> isNaN (Fin (- 350))
   \<and> \<not> jgt (Fin (- 350)) (Fin 0)
   \<and> windowBranch (Fin 100) (windowLow (Fin 50) (Fin (- 350)))
        (windowHigh (Fin 50) (Fin (- 350))) \<noteq> Scaled"
proof -
  have e: "\<not> truthy (Some [])" by simp
  have n: "''50'' \<noteq> [] \<and> ''-350'' \<noteq> []" by simp
  have p: "parseFloat (hd (split backslash ''50'')) = Fin 50"
    "parseFloat (hd (split backslash ''-350'')) = Fin (- 350)"
    by code_simp+
  have v: "vs_windowCenter initialViewerState = Fin 40"
    "vs_windowWidth initialViewerState = Fin 400"
    by (simp_all add: initialViewerState_def)
  have h: "\<not> isNaN (Fin 100) \<and> \<not> isNaN (Fin 50) \<and> \<not> isNaN (Fin (- 350))
           \<and> \<not> jgt (Fin (- 350)) (Fin 0)"
    by (simp add: jgt_def)
  from e n p v h
    window_selection_and_clamp
      [of "Some []" "Some ''350''" initialViewerState "''50''" "''-350''"
          "Fin 100" "Fin 50" "Fin (- 350)"]
  show ?thesis by simp
qed

section \<open>Sorting returns a permutation and is idempotent\<close>

lemma jsub_swap: "jsub y x = jneg (jsub x y)"
  by (cases x; cases y) (simp_all add: jsub_def)

lemma Math_abs_jneg: "Math_abs (jneg v) = Math_abs v"
  by (cases v) simp_all

lemma exceedsTolerance_jneg: "exceedsTolerance (jneg v) = exceedsTolerance v"
  by (simp add: exceedsTolerance_def Math_abs_jneg)

lemma zLevel_swap: "zLevel b a = map_option jneg (zLevel a b)"
proof (cases "imagePositionPatient a")
  case None
  then show ?thesis by (simp add: zLevel_def split: option.splits)
next
  case (Some pa)
  show ?thesis
  proof (cases "imagePositionPatient b")
    case None
    then show ?thesis by (simp add: zLevel_def split: option.splits)
  next
    case (Some pb)
    have "jsub (at_index pb 2) (at_index pa 2) = jneg (jsub (at_index pa 2) (at_index pb 2))"
      by (rule jsub_swap)
    with Some \<open>imagePositionPatient a = Some pa\<close> show ?thesis
      by (simp add: zLevel_def Let_def exceedsTolerance_jneg)
  qed
qed

lemma sliceLevel_swap: "sliceLevel b a = map_option jneg (sliceLevel a b)"
proof (cases "sliceLocation a")
  case None
  then show ?thesis by (simp add: sliceLevel_def split: option.splits)
next
  case (Some la)
  show ?thesis
  proof (cases "sliceLocation b")
    case None
    then show ?thesis by (simp add: sliceLevel_def split: option.splits)
  next
    case (Some lb)
    have "jsub lb la = jneg (jsub la lb)"
      by (rule jsub_swap)
    with Some \<open>sliceLocation a = Some la\<close> show ?thesis
      by (simp add: sliceLevel_def Let_def exceedsTolerance_jneg)
  qed
qed

lemma localeCompare_swap: "localeCompare y x = - localeCompare x y"
  by (induction x y rule: localeCompare.induct) auto

lemma number_level_swap:
  "(case (kb, ka) of (Some x, Some y) \<Rightarrow> jsub x y | _ \<Rightarrow> jneg r)
   = jneg (case (ka, kb) of (Some x, Some y) \<Rightarrow> jsub x y | _ \<Rightarrow> r)"
  by (cases ka; cases kb) (simp_all add: jsub_swap [symmetric])

lemma compareInstances_swap: "compareInstances b a = jneg (compareInstances a b)"
proof -
  have path: "Fin (of_int (localeCompare (filePath b) (filePath a)))
              = jneg (Fin (of_int (localeCompare (filePath a) (filePath b))))"
    by (simp add: localeCompare_swap [of "filePath b" "filePath a"])
  show ?thesis
    unfolding compareInstances_def zLevel_swap [of b a] sliceLevel_swap [of b a] path
      number_level_swap
    by (cases "zLevel a b"; cases "sliceLevel a b") simp_all
qed

lemma compare_antisym:
  "jgt (SortCompare compareInstances x y) (Fin 0) \<Longrightarrow>
   \<not> jgt (SortCompare compareInstances y x) (Fin 0)"
  unfolding SortCompare_def compareInstances_swap [of y x]
  by (cases "compareInstances x y") (auto simp: jgt_def Let_def)

lemma mset_sort_insert: "mset (sort_insert f x ys) = add_mset x (mset ys)"
  by (induction ys) auto

lemma mset_Array_sort: "mset (Array_sort f xs) = mset xs"
  by (induction xs) (auto simp: mset_sort_insert)


lemma sort_insert_in_order:
  assumes anti: "\<And>u v. jgt (SortCompare f u v) (Fin 0) \<Longrightarrow> \<not> jgt (SortCompare f v u) (Fin 0)"
  shows "in_order f ys \<Longrightarrow> in_order f (sort_insert f x ys)"
proof (induction ys)
  case Nil
  then show ?case by (simp add: in_order_def)
next
  case (Cons y ys)
  show ?case
  proof (cases "jgt (SortCompare f x y) (Fin 0)")
    case False
    with Cons.prems show ?thesis by (simp add: in_order_def)
  next
    case True
    from Cons.prems have tl: "in_order f ys"
      by (auto simp: in_order_def successively_Cons)
    have ih: "in_order f (sort_insert f x ys)" by (rule Cons.IH [OF tl])
    have yx: "\<not> jgt (SortCompare f y x) (Fin 0)" using anti [OF True] .
    show ?thesis
    proof (cases ys)
      case Nil
      with True yx show ?thesis by (simp add: in_order_def)
    next
      case (Cons z zs)
      with Cons.prems True yx ih show ?thesis
        by (auto simp: in_order_def successively_Cons)
    qed
  qed
qed

lemma Array_sort_in_order:
  assumes anti: "\<And>u v. jgt (SortCompare f u v) (Fin 0) \<Longrightarrow> \<not> jgt (SortCompare f v u) (Fin 0)"
  shows "in_order f (Array_sort f xs)"
proof (induction xs)
  case Nil
  show ?case by (simp add: in_order_def)
next
  case (Cons x xs)
  then show ?case by (simp add: sort_insert_in_order [OF anti])
qed

lemma Array_sort_fixed: "in_order f xs \<Longrightarrow> Array_sort f xs = xs"
proof (induction xs)
  case Nil
  show ?case by simp
next
  case (Cons x xs)
  from Cons.prems have "in_order f xs" by (auto simp: in_order_def successively_Cons)
  then have "Array_sort f xs = xs" by (rule Cons.IH)
  with Cons.prems show ?case by (cases xs) (auto simp: in_order_def)
qed

text \<open>
  C3. \<open>sortInstances\<close> returns a permutation of its input: the same multiset of
  instances, hence the same length and the same multiset of instance UIDs. Sorting a
  sorted list again returns it unchanged.
\<close>

theorem sortInstances_permutation_idempotent:
  "mset (sortInstances insts) = mset insts
   \<and> length (sortInstances insts) = length insts
   \<and> mset (map sopInstanceUID (sortInstances insts)) = mset (map sopInstanceUID insts)
   \<and> sortInstances (sortInstances insts) = sortInstances insts"
proof -
  have m: "mset (sortInstances insts) = mset insts"
    by (simp add: sortInstances_def mset_Array_sort)
  have "in_order compareInstances (sortInstances insts)"
    unfolding sortInstances_def by (rule Array_sort_in_order) (rule compare_antisym)
  then have i: "sortInstances (sortInstances insts) = sortInstances insts"
    unfolding sortInstances_def by (rule Array_sort_fixed)
  from m have l: "length (sortInstances insts) = length insts"
    by (rule mset_eq_length)
  from m have u: "mset (map sopInstanceUID (sortInstances insts)) = mset (map sopInstanceUID insts)"
    by (metis mset_map)
  from m l u i show ?thesis by blast
qed


section \<open>The comparator is not transitive in general\<close>

text \<open>
  C4, as stated, fails. The slices A, B and C lie at the doubles 0, 0.001 and 0.002 in Z
  and carry the instance numbers 3, 2 and 1. C against B and B against A differ by the
  double 0.001, which does not pass the guard, and are decided by the instance numbers;
  C against A is decided by Z, the other way.
\<close>

theorem comparator_not_transitive:
  "compares_le nearSliceC nearSliceB \<and> compares_le nearSliceB nearSliceA
   \<and> \<not> compares_le nearSliceC nearSliceA"
  by code_simp

text \<open>
  The comparator is not transitive either when the three instances do not carry the same
  keys: with a position on the outer two only, the pairs with the middle one are decided
  by the file paths and the outer pair by Z.
\<close>

lemma mixed_keys_not_transitive:
  "compares_le mixedA mixedB \<and> compares_le mixedB mixedC \<and> \<not> compares_le mixedA mixedC"
  by code_simp

text \<open>
  Nor is it when the middle instance has the instance number NaN, which compares equal to
  every number.
\<close>

lemma nan_number_not_transitive:
  "compares_le nanNumberA nanNumberB \<and> compares_le nanNumberB nanNumberC
   \<and> \<not> compares_le nanNumberA nanNumberC"
  by code_simp

text \<open>
  The margin of the guard. For a value between \<open>1 / 2 ^ 10\<close> and \<open>1 / 2 ^ 9\<close> the
  nearest double exceeds \<open>0.001\<close> exactly when the value exceeds \<open>0.001\<close> by more than
  the margin. A smaller value is rounded to at most \<open>1 / 2 ^ 10\<close>, below \<open>0.001\<close>, and
  a larger one to at least \<open>1 / 2 ^ 9\<close>, above it, since rounding keeps the order and
  both bounds are doubles; so the guard of the model is the guard of the source on the
  rounded difference.
\<close>

lemma roundHalfEven_above_even:
  assumes "even m"
  shows "(m < roundHalfEven t) = (of_int m + 1 / 2 < t)"
proof -
  have floor_less: "\<lfloor>t\<rfloor> < m \<Longrightarrow> t < of_int m"
    by linarith
  have floor_ge: "m \<le> \<lfloor>t\<rfloor> \<Longrightarrow> of_int m \<le> t"
    by linarith
  show ?thesis
  proof (cases "\<lfloor>t\<rfloor> < m")
    case True
    then have "t < of_int m" by (rule floor_less)
    moreover from True have "roundHalfEven t \<le> m"
      by (simp add: roundHalfEven_def Let_def)
    ultimately show ?thesis by simp
  next
    case False
    show ?thesis
    proof (cases "\<lfloor>t\<rfloor> = m")
      case True
      with assms show ?thesis
        by (auto simp: roundHalfEven_def Let_def)
    next
      case ne: False
      with False have "m + 1 \<le> \<lfloor>t\<rfloor>" by simp
      then have "of_int (m + 1) \<le> t" by linarith
      moreover from \<open>m + 1 \<le> \<lfloor>t\<rfloor>\<close> have "m < roundHalfEven t"
        by (simp add: roundHalfEven_def Let_def)
      ultimately show ?thesis by simp
    qed
  qed
qed

lemma guard_margin:
  "(double_0_001 < roundNearTolerance t) = (double_0_001 + roundingMargin < t)"
proof -
  have e: "even (4611686018427388 :: int)" by simp
  have "(double_0_001 < roundNearTolerance t)
        = ((4611686018427388 :: int) < roundHalfEven (t * 2 ^ 62))"
    by (simp add: double_0_001_def roundNearTolerance_def field_simps)
  also have "\<dots> = (of_int 4611686018427388 + 1 / 2 < t * 2 ^ 62)"
    by (rule roundHalfEven_above_even [OF e])
  also have "\<dots> = (double_0_001 + roundingMargin < t)"
    by (simp add: double_0_001_def roundingMargin_def field_simps)
  finally show ?thesis .
qed

lemma guard_threshold:
  "\<exists>r>0. \<forall>d. exceedsTolerance d = jgt (Math_abs d) (Fin r)"
proof (intro exI conjI allI)
  show "0 < double_0_001 + roundingMargin"
    by (simp add: double_0_001_def roundingMargin_def)
  show "exceedsTolerance d = jgt (Math_abs d) (Fin (double_0_001 + roundingMargin))" for d
    by (simp add: exceedsTolerance_def tolerance_def)
qed

lemma before_trans: "before x y \<Longrightarrow> before y z \<Longrightarrow> before x z"
proof -
  obtain r where r: "0 < r" "\<And>d. exceedsTolerance d = jgt (Math_abs d) (Fin r)"
    using guard_threshold by blast
  show "before x y \<Longrightarrow> before y z \<Longrightarrow> before x z"
    using r(1)
    by (cases x; cases y; cases z) (auto simp: before_def r(2) jsub_def jgt_def)
qed

lemma before_close:
  "before x y \<Longrightarrow> close y z \<Longrightarrow> \<not> close x z \<Longrightarrow> before x z"
proof -
  obtain r where r: "0 < r" "\<And>d. exceedsTolerance d = jgt (Math_abs d) (Fin r)"
    using guard_threshold by blast
  show "before x y \<Longrightarrow> close y z \<Longrightarrow> \<not> close x z \<Longrightarrow> before x z"
    using r(1)
    by (cases x; cases y; cases z) (auto simp: before_def close_def r(2) jsub_def jgt_def)
qed

lemma close_before:
  "close x y \<Longrightarrow> before y z \<Longrightarrow> \<not> close x z \<Longrightarrow> before x z"
proof -
  obtain r where r: "0 < r" "\<And>d. exceedsTolerance d = jgt (Math_abs d) (Fin r)"
    using guard_threshold by blast
  show "close x y \<Longrightarrow> before y z \<Longrightarrow> \<not> close x z \<Longrightarrow> before x z"
    using r(1)
    by (cases x; cases y; cases z) (auto simp: before_def close_def r(2) jsub_def jgt_def)
qed

lemma before_not_close: "before x y \<Longrightarrow> \<not> close x y"
  by (simp add: before_def close_def)


lemma before_then_close:
  assumes "closeTransitive x y z" "before x y" "close y z"
  shows "before x z"
proof -
  from assms have "\<not> close x z"
    by (auto simp: closeTransitive_def dest: before_not_close)
  with assms show ?thesis by (blast intro: before_close)
qed

lemma close_then_before:
  assumes "closeTransitive x y z" "close x y" "before y z"
  shows "before x z"
proof -
  from assms have "\<not> close x z"
    by (auto simp: closeTransitive_def dest: before_not_close)
  with assms show ?thesis by (blast intro: close_before)
qed

lemma close_then_close:
  "closeTransitive x y z \<Longrightarrow> close x y \<Longrightarrow> close y z \<Longrightarrow> close x z"
  by (simp add: closeTransitive_def)

lemma keyBefore_trans: "keyBefore ka kb \<Longrightarrow> keyBefore kb kc \<Longrightarrow> keyBefore ka kc"
  by (cases ka; cases kb; cases kc) (auto simp: keyBefore_def intro: before_trans)

lemma keyBefore_keyClose:
  assumes "(ka = None) = (kb = None)" "(kb = None) = (kc = None)"
    and "keysCloseTransitive ka kb kc" "keyBefore ka kb" "keyClose kb kc"
  shows "keyBefore ka kc"
  using assms
  by (cases ka; cases kb; cases kc)
     (auto simp: keyBefore_def keyClose_def keysCloseTransitive_def intro: before_then_close)

lemma keyClose_keyBefore:
  assumes "(ka = None) = (kb = None)" "(kb = None) = (kc = None)"
    and "keysCloseTransitive ka kb kc" "keyClose ka kb" "keyBefore kb kc"
  shows "keyBefore ka kc"
  using assms
  by (cases ka; cases kb; cases kc)
     (auto simp: keyBefore_def keyClose_def keysCloseTransitive_def intro: close_then_before)

lemma keyClose_trans:
  assumes "(ka = None) = (kb = None)" "(kb = None) = (kc = None)"
    and "keysCloseTransitive ka kb kc" "keyClose ka kb" "keyClose kb kc"
  shows "keyClose ka kc"
  using assms
  by (cases ka; cases kb; cases kc)
     (auto simp: keyClose_def keysCloseTransitive_def intro: close_then_close)

text \<open>The comparator's verdict is the lexicographic reading.\<close>

lemma SortCompare_verdict: "SortCompare f x y = verdict (f x y)"
  by (simp add: SortCompare_def verdict_def)

lemma passed_verdict:
  "exceedsTolerance d \<Longrightarrow> (\<not> jgt (verdict d) (Fin 0)) = jlt d (Fin 0)"
proof -
  obtain r where r: "0 < r" "\<And>d. exceedsTolerance d = jgt (Math_abs d) (Fin r)"
    using guard_threshold by blast
  show "exceedsTolerance d \<Longrightarrow> (\<not> jgt (verdict d) (Fin 0)) = jlt d (Fin 0)"
    using r(1) by (cases d) (auto simp: r(2) verdict_def jgt_def)
qed

lemma zLevel_zKey:
  "zLevel a b =
     (case (zKey a, zKey b) of
        (Some x, Some y) \<Rightarrow> if exceedsTolerance (jsub x y) then Some (jsub x y) else None
      | _ \<Rightarrow> None)"
  by (cases "imagePositionPatient a"; cases "imagePositionPatient b")
     (simp_all add: zLevel_def zKey_def Let_def)

lemma sliceLevel_key:
  "sliceLevel a b =
     (case (sliceLocation a, sliceLocation b) of
        (Some x, Some y) \<Rightarrow> if exceedsTolerance (jsub x y) then Some (jsub x y) else None
      | _ \<Rightarrow> None)"
  by (cases "sliceLocation a"; cases "sliceLocation b")
     (simp_all add: sliceLevel_def Let_def)

lemma not_jlt_trans:
  "\<not> isNaN y \<Longrightarrow> \<not> jlt y x \<Longrightarrow> \<not> jlt z y \<Longrightarrow> \<not> jlt z x"
  by (cases x; cases y; cases z) auto

lemma localeCompare_trans:
  "localeCompare x y \<le> 0 \<Longrightarrow> localeCompare y z \<le> 0 \<Longrightarrow> localeCompare x z \<le> 0"
proof (induction x arbitrary: y z)
  case Nil
  then show ?case by (cases z) auto
next
  case (Cons c cs)
  then show ?case
    by (cases y; cases z) (auto split: if_splits)
qed

lemma verdict_sub_le: "jgt (verdict (jsub x y)) (Fin 0) = jlt y x"
  by (cases x; cases y) (auto simp: jsub_def jgt_def verdict_def)

lemma verdict_path:
  "jgt (verdict (Fin (of_int k))) (Fin 0) = (0 < k)"
  by (simp add: verdict_def jgt_def)

lemma number_usable: "usableNumbers a \<Longrightarrow> instanceNumber a = Some x \<Longrightarrow> \<not> isNaN x"
  by (auto simp: usableNumbers_def usableNumber_def)

lemma acquisition_usable: "usableNumbers a \<Longrightarrow> acquisitionNumber a = Some x \<Longrightarrow> \<not> isNaN x"
  by (auto simp: usableNumbers_def usableNumber_def)

lemma tail_verdict:
  "(\<not> jgt (verdict
            (case (instanceNumber a, instanceNumber b) of
               (Some na, Some nb) \<Rightarrow> jsub na nb
             | _ \<Rightarrow>
            (case (acquisitionNumber a, acquisitionNumber b) of
               (Some qa, Some qb) \<Rightarrow> jsub qa qb
             | _ \<Rightarrow> Fin (of_int (localeCompare (filePath a) (filePath b)))))) (Fin 0))
         = tailLe a b"
  by (cases "instanceNumber a"; cases "instanceNumber b";
      cases "acquisitionNumber a"; cases "acquisitionNumber b")
     (simp_all add: tailLe_def verdict_sub_le verdict_path not_less)

lemma compares_le_lex: "compares_le a b = lexLe a b"
proof -
  show ?thesis
    unfolding compares_le_def SortCompare_verdict compareInstances_def
      zLevel_zKey sliceLevel_key lexLe_def
    using tail_verdict [of a b]
    by (cases "zKey a"; cases "zKey b"; cases "sliceLocation a"; cases "sliceLocation b")
       (simp_all add: keyBefore_def keyClose_def before_def close_def passed_verdict)
qed

lemma tailLe_trans:
  assumes "usableNumbers b" "sameKeys a b" "sameKeys b c" "tailLe a b" "tailLe b c"
  shows "tailLe a c"
proof (cases "instanceNumber b")
  case (Some nb)
  with assms obtain na nc where "instanceNumber a = Some na" "instanceNumber c = Some nc"
    by (auto simp: sameKeys_def)
  with Some assms number_usable [OF assms(1) Some] not_jlt_trans [of nb na nc] show ?thesis
    by (auto simp: tailLe_def)
next
  case None
  with assms have n: "instanceNumber a = None" "instanceNumber c = None"
    by (auto simp: sameKeys_def)
  show ?thesis
  proof (cases "acquisitionNumber b")
    case (Some qb)
    with assms obtain qa qc where "acquisitionNumber a = Some qa" "acquisitionNumber c = Some qc"
      by (auto simp: sameKeys_def)
    with Some None n assms acquisition_usable [OF assms(1) Some] not_jlt_trans [of qb qa qc]
    show ?thesis
      by (auto simp: tailLe_def)
  next
    case q: None
    with assms have "acquisitionNumber a = None" "acquisitionNumber c = None"
      by (auto simp: sameKeys_def)
    with q None n assms localeCompare_trans [of "filePath a" "filePath b" "filePath c"]
    show ?thesis
      by (auto simp: tailLe_def)
  qed
qed

lemma sameKeys_zKey: "sameKeys a b \<Longrightarrow> (zKey a = None) = (zKey b = None)"
  by (auto simp: sameKeys_def zKey_def)

lemma sameKeys_slice: "sameKeys a b \<Longrightarrow> (sliceLocation a = None) = (sliceLocation b = None)"
  by (auto simp: sameKeys_def)

lemma lexLe_trans:
  assumes b: "usableNumbers b" and ab: "sameKeys a b" and bc: "sameKeys b c"
    and ct: "closenessTransitive a b c"
    and 1: "lexLe a b" and 2: "lexLe b c"
  shows "lexLe a c"
proof -
  note z = sameKeys_zKey [OF ab] sameKeys_zKey [OF bc]
  note sl = sameKeys_slice [OF ab] sameKeys_slice [OF bc]
  from ct have cz: "keysCloseTransitive (zKey a) (zKey b) (zKey c)"
    and cs: "keysCloseTransitive (sliceLocation a) (sliceLocation b) (sliceLocation c)"
    by (simp_all add: closenessTransitive_def)
  note t = tailLe_trans [OF b ab bc]
  from 1 2 show ?thesis
    unfolding lexLe_def
    using keyBefore_trans keyBefore_keyClose [OF z cz] keyClose_keyBefore [OF z cz]
      keyClose_trans [OF z cz] keyBefore_keyClose [OF sl cs] keyClose_keyBefore [OF sl cs]
      keyClose_trans [OF sl cs] t
    by blast
qed

text \<open>
  C4, amended. The comparator, with its 0.001 tolerance, is transitive on three instances
  a, b, c that carry the same set of ordering keys, where the instance and acquisition
  numbers of the middle one, b, are not NaN, and among whose Z positions, and among whose
  slice locations, closeness is transitive (no two of the three pairs are within the
  tolerance without the third): if a compares less-than-or-equal to b and b to c, then a
  compares less-than-or-equal to c.
\<close>

theorem comparator_transitive_when_closeness_transitive:
  assumes "sameKeys a b" "sameKeys b c"
    and "usableNumbers b"
    and "closenessTransitive a b c"
    and "compares_le a b" "compares_le b c"
  shows "compares_le a c"
proof -
  from assms have "lexLe a b" "lexLe b c"
    by (simp_all add: compares_le_lex)
  with assms have "lexLe a c"
    by (blast intro: lexLe_trans)
  then show ?thesis
    by (simp add: compares_le_lex)
qed

theorem comparator_transitive_when_closeness_transitive_witness:
  "sameKeys noisySlice1 noisySlice2 \<and> sameKeys noisySlice2 noisySlice3
   \<and> usableNumbers noisySlice2
   \<and> closenessTransitive noisySlice1 noisySlice2 noisySlice3
   \<and> zLevel noisySlice1 noisySlice2 = None
   \<and> compares_le noisySlice1 noisySlice2 \<and> compares_le noisySlice2 noisySlice3
   \<and> compares_le noisySlice1 noisySlice3"
proof -
  have k: "sameKeys noisySlice1 noisySlice2" "sameKeys noisySlice2 noisySlice3"
    by code_simp+
  have u: "usableNumbers noisySlice2"
    by code_simp
  have c: "closenessTransitive noisySlice1 noisySlice2 noisySlice3"
    by code_simp
  have n: "zLevel noisySlice1 noisySlice2 = None"
    by code_simp
  have l: "compares_le noisySlice1 noisySlice2" "compares_le noisySlice2 noisySlice3"
    by code_simp+
  have "compares_le noisySlice1 noisySlice3"
    using k u c l by (rule comparator_transitive_when_closeness_transitive)
  with k u c n l show ?thesis
    by simp
qed


section \<open>Equal instance numbers end the cascade\<close>

text \<open>
  C5 describes a cascade in which an equal result falls through at every level but the
  last. The first two levels do that; the instance-number and acquisition-number levels
  return their difference unconditionally. For these two instances, which share the
  instance number 5, the comparator returns 0, although the acquisition numbers would
  order A before B (difference \<open>-1\<close>) and so would the file paths; the sort therefore
  leaves them in their input order B, A.
\<close>

theorem equal_instance_numbers_end_cascade:
  "compareInstances sameNumberA sameNumberB = Fin 0
   \<and> compareInstances sameNumberB sameNumberA = Fin 0
   \<and> acquisitionNumber sameNumberA = Some (Fin 1)
   \<and> acquisitionNumber sameNumberB = Some (Fin 2)
   \<and> jsub (Fin 1) (Fin 2) = Fin (- 1)
   \<and> localeCompare (filePath sameNumberA) (filePath sameNumberB) = - 1
   \<and> map filePath (sortInstances [sameNumberB, sameNumberA]) = [''/scan/b.dcm'', ''/scan/a.dcm'']"
  by code_simp


section \<open>The grouping scenario\<close>

text \<open>
  C8. Four file records with the (study, series) pairs (S1, A), (S1, A), (S1, B), (S2, C),
  where S1 and S2 differ and A and B differ, are grouped into exactly two studies: S1
  with the two series A, holding the instances of the first two files, and B, holding the
  instance of the third; and S2 with the one series C, holding the instance of the fourth.
\<close>

theorem grouping_scenario:
  assumes "file_studyInstanceUID f1 = S1" "file_seriesInstanceUID f1 = A"
    and "file_studyInstanceUID f2 = S1" "file_seriesInstanceUID f2 = A"
    and "file_studyInstanceUID f3 = S1" "file_seriesInstanceUID f3 = B"
    and "file_studyInstanceUID f4 = S2" "file_seriesInstanceUID f4 = C"
    and "S1 \<noteq> S2" "A \<noteq> B"
  shows "\<exists>st1 st2 sa sb sc.
           groupDicomFiles [f1, f2, f3, f4] = [(S1, st1), (S2, st2)]
           \<and> series st1 = [(A, sa), (B, sb)]
           \<and> series st2 = [(C, sc)]
           \<and> instances sa = [instance f1, instance f2]
           \<and> instances sb = [instance f3]
           \<and> instances sc = [instance f4]
           \<and> length (sortedInstances sa) = 2
           \<and> length (sortedInstances sb) = 1
           \<and> length (sortedInstances sc) = 1"
  using assms
  by (simp add: groupDicomFiles_def addFile_def newStudy_def newSeries_def sortStudy_def
        sortSeries_def sortInstances_def Let_def)

theorem grouping_scenario_witness:
  "''study1'' \<noteq> ''study2'' \<and> ''series1'' \<noteq> ''series2''
   \<and> (\<exists>st1 st2 sa sb sc.
         groupDicomFiles
           [createParsedFile ''study1'' ''series1'' ''sop1'',
            createParsedFile ''study1'' ''series1'' ''sop2'',
            createParsedFile ''study1'' ''series2'' ''sop3'',
            createParsedFile ''study2'' ''series3'' ''sop4'']
         = [(''study1'', st1), (''study2'', st2)]
         \<and> series st1 = [(''series1'', sa), (''series2'', sb)]
         \<and> series st2 = [(''series3'', sc)]
         \<and> length (instances sa) = 2
         \<and> length (instances sb) = 1
         \<and> length (instances sc) = 1)"
proof -
  have d: "''study1'' \<noteq> ''study2''" "''series1'' \<noteq> ''series2''"
    by simp_all
  have "\<exists>st1 st2 sa sb sc.
         groupDicomFiles
           [createParsedFile ''study1'' ''series1'' ''sop1'',
            createParsedFile ''study1'' ''series1'' ''sop2'',
            createParsedFile ''study1'' ''series2'' ''sop3'',
            createParsedFile ''study2'' ''series3'' ''sop4'']
         = [(''study1'', st1), (''study2'', st2)]
         \<and> series st1 = [(''series1'', sa), (''series2'', sb)]
         \<and> series st2 = [(''series3'', sc)]
         \<and> instances sa = [instance (createParsedFile ''study1'' ''series1'' ''sop1''),
                             instance (createParsedFile ''study1'' ''series1'' ''sop2'')]
         \<and> instances sb = [instance (createParsedFile ''study1'' ''series2'' ''sop3'')]
         \<and> instances sc = [instance (createParsedFile ''study2'' ''series3'' ''sop4'')]
         \<and> length (sortedInstances sa) = 2
         \<and> length (sortedInstances sb) = 1
         \<and> length (sortedInstances sc) = 1"
    by (rule grouping_scenario) (simp_all add: createParsedFile_def)
  then obtain st1 st2 sa sb sc where
    "groupDicomFiles
           [createParsedFile ''study1'' ''series1'' ''sop1'',
            createParsedFile ''study1'' ''series1'' ''sop2'',
            createParsedFile ''study1'' ''series2'' ''sop3'',
            createParsedFile ''study2'' ''series3'' ''sop4'']
         = [(''study1'', st1), (''study2'', st2)]"
    "series st1 = [(''series1'', sa), (''series2'', sb)]"
    "series st2 = [(''series3'', sc)]"
    "length (instances sa) = 2" "length (instances sb) = 1" "length (instances sc) = 1"
    by auto
  with d show ?thesis
    by blast
qed

end
